theory Spec2Isabelle
  imports Complex_Main
begin

section \<open>Outcomes of a call\<close>

text \<open>
  A function of \<^verbatim>\<open>avconv_filter.c\<close> either returns to its caller, or it ends the process
  (\<^verbatim>\<open>exit(1)\<close>), trips \<^verbatim>\<open>av_assert0\<close>, or touches memory it must not. The last three are
  the faults below; a call that returns yields \<open>Inr\<close> of its result.
\<close>

datatype fault =
    Exit int                  \<comment> \<open>\<^verbatim>\<open>exit(n)\<close>\<close>
  | Assert_Failed             \<comment> \<open>\<^verbatim>\<open>av_assert0\<close> on a false condition\<close>
  | Read_Out_Of_Bounds        \<comment> \<open>a read past the end of an array, or through an invalid pointer\<close>
  | Write_Out_Of_Bounds int   \<comment> \<open>a store at this index, outside the buffer\<close>

section \<open>Strings and formatting\<close>

text \<open>A C string read from a byte buffer ends before the first zero byte.\<close>

definition c_str :: "char list \<Rightarrow> string" where
  "c_str buf = takeWhile (\<lambda>c. c \<noteq> CHR 0x00) buf"

text \<open>\<^verbatim>\<open>snprintf(dst, n, ...)\<close> stores at most \<open>n - 1\<close> characters of the formatted
  text (and the terminating zero); its return value is the length of the whole text.\<close>

definition snprintf :: "nat \<Rightarrow> string \<Rightarrow> string" where
  "snprintf n txt = take (n - 1) txt"

definition digit_char :: "nat \<Rightarrow> char" where
  "digit_char d = ''0123456789abcdef'' ! d"

fun dec_nat :: "nat \<Rightarrow> string" where
  "dec_nat n = (if n < 10 then [digit_char n] else dec_nat (n div 10) @ [digit_char (n mod 10)])"

fun hex_nat :: "nat \<Rightarrow> string" where
  "hex_nat n = (if n < 16 then [digit_char n] else hex_nat (n div 16) @ [digit_char (n mod 16)])"

definition upper_char :: "char \<Rightarrow> char" where
  "upper_char c =
     (if c = CHR ''a'' then CHR ''A'' else if c = CHR ''b'' then CHR ''B''
      else if c = CHR ''c'' then CHR ''C'' else if c = CHR ''d'' then CHR ''D''
      else if c = CHR ''e'' then CHR ''E'' else if c = CHR ''f'' then CHR ''F'' else c)"

declare dec_nat.simps [simp del] hex_nat.simps [simp del]

text \<open>\<^verbatim>\<open>%d\<close> of an \<^verbatim>\<open>int\<close>, and \<^verbatim>\<open>%X\<close> and \<^verbatim>\<open>%x\<close> of an unsigned value.\<close>

definition fmt_d :: "int \<Rightarrow> string" where
  "fmt_d i = (if i < 0 then CHR ''-'' # dec_nat (nat (- i)) else dec_nat (nat i))"

definition fmt_X :: "nat \<Rightarrow> string" where
  "fmt_X n = map upper_char (hex_nat n)"

definition fmt_x :: "nat \<Rightarrow> string" where
  "fmt_x n = hex_nat n"

text \<open>\<^verbatim>\<open>(unsigned)v\<close> for an \<^verbatim>\<open>int\<close> \<open>v\<close>.\<close>

definition to_unsigned :: "int \<Rightarrow> nat" where
  "to_unsigned v = nat (v mod 2 ^ 32)"

section \<open>Data model\<close>

datatype AVMediaType =
    AVMEDIA_TYPE_UNKNOWN | AVMEDIA_TYPE_VIDEO | AVMEDIA_TYPE_AUDIO
  | AVMEDIA_TYPE_DATA | AVMEDIA_TYPE_SUBTITLE | AVMEDIA_TYPE_ATTACHMENT

text \<open>Sentinels of the format lists, and the error codes the file returns itself
  (\<^verbatim>\<open>AVERROR(e)\<close> is \<open>- e\<close>; \<^verbatim>\<open>AVERROR_FILTER_NOT_FOUND\<close> is the negated tag
  \<^verbatim>\<open>0xF8 'F' 'I' 'L'\<close>).\<close>

definition AV_PIX_FMT_NONE :: int where "AV_PIX_FMT_NONE = - 1"
definition AV_SAMPLE_FMT_NONE :: int where "AV_SAMPLE_FMT_NONE = - 1"
definition AVDISCARD_NONE :: int where "AVDISCARD_NONE = - 16"
definition INT64_MAX :: int where "INT64_MAX = 2 ^ 63 - 1"
definition AVERROR_ENOMEM :: int where "AVERROR_ENOMEM = - 12"
definition AVERROR_EINVAL :: int where "AVERROR_EINVAL = - 22"
definition AVERROR_FILTER_NOT_FOUND :: int where "AVERROR_FILTER_NOT_FOUND = - 1279870712"

type_synonym AVRational = "int \<times> int"   \<comment> \<open>\<open>(num, den)\<close>\<close>

subsection \<open>The filter graph of the execution engine\<close>

record AVFilterPad =
  pad_name :: string
  pad_type :: AVMediaType

text \<open>A \<^verbatim>\<open>double\<close> is kept as the expression the code computes it with: the conversion
  of an integer, a constant or variable that holds a number, or a quotient of two doubles.
  The rounding of the floating-point operations is not modelled, so that
  \<open>Double_div (Double_of_int t) (Double_const 1000000)\<close> is the double \<^verbatim>\<open>(double)t / 1e6\<close>,
  whichever it is.\<close>

datatype double =
    Double_of_int int             \<comment> \<open>\<^verbatim>\<open>(double)i\<close>\<close>
  | Double_const rat              \<comment> \<open>a constant or a variable holding this number\<close>
  | Double_div double double      \<comment> \<open>\<^verbatim>\<open>x / y\<close>\<close>

text \<open>A node of the executable graph. \<open>AVFilterContext *\<close> is the node's position in
  \<open>filters\<close> of its graph. \<open>options\<close> are the values stored by \<^verbatim>\<open>av_opt_set_double\<close>,
  latest last.\<close>

record AVFilterContext =
  filter_name :: string             \<comment> \<open>\<^verbatim>\<open>ctx->filter->name\<close>, the node type\<close>
  inst_name :: string               \<comment> \<open>\<^verbatim>\<open>ctx->name\<close>\<close>
  init_args :: "string option"      \<comment> \<open>the string given to \<^verbatim>\<open>avfilter_init_str\<close>, when initialised\<close>
  initialised :: bool
  options :: "(string \<times> double) list"
  input_pads :: "AVFilterPad list"
  output_pads :: "AVFilterPad list"

text \<open>A link from output pad \<open>srcpad\<close> of node \<open>src\<close> to input pad \<open>dstpad\<close> of node \<open>dst\<close>.\<close>

type_synonym AVFilterLink = "nat \<times> int \<times> nat \<times> int"   \<comment> \<open>\<open>(src, srcpad, dst, dstpad)\<close>\<close>

record AVFilterGraph =
  filters :: "AVFilterContext list"
  links :: "AVFilterLink list"
  scale_sws_opts :: "string option"
  resample_lavr_opts :: "string option"

text \<open>A dangling endpoint left by the parser; the \<^verbatim>\<open>next\<close> chain is a list.\<close>

record AVFilterInOut =
  io_name :: "string option"
  filter_ctx :: nat
  pad_idx :: int

subsection \<open>Streams, files and filter graphs of the program\<close>

record AVCodecContext =
  codec_type :: AVMediaType
  width :: int
  height :: int
  pix_fmt :: int
  sample_fmt :: int
  sample_rate :: int
  channel_layout :: int
  channels :: int
  codec_sample_aspect_ratio :: AVRational

record AVStream =
  st_index :: int
  codec :: AVCodecContext
  time_base :: AVRational
  st_sample_aspect_ratio :: AVRational
  st_discard :: int

text \<open>The lists an encoder declares: \<open>None\<close> is the null pointer, \<open>Some arr\<close> the array the
  pointer addresses, which the code scans up to the first sentinel.\<close>

record AVCodec =
  pix_fmts :: "int list option"
  sample_fmts :: "int list option"
  supported_samplerates :: "int list option"
  channel_layouts :: "int list option"

text \<open>\<open>OutputStream *\<close> and \<open>InputStream *\<close> are positions in the global arrays
  \<open>output_streams\<close> and \<open>input_streams\<close>; \<open>InputFilter *\<close>, \<open>OutputFilter *\<close> and
  \<open>FilterGraph *\<close> are addresses in the heaps of the program state below. A null
  pointer is \<open>None\<close>.\<close>

record OutputStream =
  ost_file_index :: int
  ost_index :: int
  st :: AVStream
  enc :: "AVCodec option"
  frame_rate :: AVRational
  sws_flags :: int
  avfilter :: string
  resample_opts :: "(string \<times> string) list"
  ost_filter :: "nat option"

record InputStream =
  ist_file_index :: int
  ist_st :: AVStream
  discard :: int
  decoding_needed :: int
  framerate :: AVRational
  ist_filters :: "nat option list"

record OutputFile =
  recording_time :: int
  start_time :: int

text \<open>\<open>ctx_streams\<close> is \<^verbatim>\<open>ctx->streams\<close>: each demuxer stream is the \<open>ist_st\<close> of one input
  stream, and is named by that input stream's position.\<close>

record InputFile =
  ctx_streams :: "nat list"
  ist_index :: int

record InputFilter =
  if_filter :: "nat option"
  if_ist :: "nat option"
  if_graph :: "nat option"
  if_name :: "string option"

record OutputFilter =
  of_filter :: "nat option"
  of_ost :: "nat option"
  of_graph :: "nat option"
  of_name :: "string option"
  out_tmp :: "AVFilterInOut option"

record FilterGraph =
  fg_index :: int
  graph_desc :: "string option"
  graph :: "AVFilterGraph option"
  inputs :: "nat option list"
  outputs :: "nat option list"

subsection \<open>The surroundings: allocator, libavutil, libavformat and libavfilter\<close>

text \<open>
  What the file calls and does not define is a parameter of the model: whether memory
  is granted, the names of formats, and what the execution engine answers. A return
  code below zero is a failure.
\<close>

record env =
  alloc_ok :: bool                                  \<comment> \<open>\<^verbatim>\<open>av_mallocz\<close>, \<^verbatim>\<open>GROW_ARRAY\<close> get their memory\<close>
  dyn_buf_rc :: int                                 \<comment> \<open>\<^verbatim>\<open>avio_open_dyn_buf\<close>\<close>
  strdup_ok :: "string \<Rightarrow> bool"                    \<comment> \<open>\<^verbatim>\<open>av_strdup\<close> gets its memory for this text\<close>
  pix_fmt_name :: "int \<Rightarrow> string option"           \<comment> \<open>\<^verbatim>\<open>GET_PIX_FMT_NAME\<close>; \<open>None\<close> is a null \<^verbatim>\<open>name\<close>\<close>
  sample_fmt_name :: "int \<Rightarrow> string option"        \<comment> \<open>\<^verbatim>\<open>GET_SAMPLE_FMT_NAME\<close>\<close>
  sample_rate_name :: "int \<Rightarrow> string option"       \<comment> \<open>\<^verbatim>\<open>GET_SAMPLE_RATE_NAME\<close>\<close>
  ch_layout_name :: "int \<Rightarrow> string option"         \<comment> \<open>\<^verbatim>\<open>GET_CH_LAYOUT_NAME\<close>\<close>
  default_channel_layout :: "int \<Rightarrow> int"           \<comment> \<open>\<^verbatim>\<open>av_get_default_channel_layout\<close>\<close>
  fmt_f :: "double \<Rightarrow> string"                      \<comment> \<open>\<^verbatim>\<open>%f\<close> of a \<^verbatim>\<open>double\<close>\<close>
  strtol :: "string \<Rightarrow> int \<times> string"              \<comment> \<open>value and unparsed rest\<close>
  check_stream_specifier :: "nat \<Rightarrow> nat \<Rightarrow> string \<Rightarrow> int"
  get_by_name :: "string \<Rightarrow> bool"                  \<comment> \<open>\<^verbatim>\<open>avfilter_get_by_name\<close> finds the type\<close>
  graph_alloc_ok :: bool                            \<comment> \<open>\<^verbatim>\<open>avfilter_graph_alloc\<close>\<close>
  alloc_filter_ok :: "AVFilterGraph \<Rightarrow> string \<Rightarrow> string \<Rightarrow> bool"
  init_str_rc :: "AVFilterGraph \<Rightarrow> nat \<Rightarrow> string option \<Rightarrow> int"
  filter_pads :: "string \<Rightarrow> AVFilterPad list \<times> AVFilterPad list"
  opt_set_double_rc :: "AVFilterGraph \<Rightarrow> nat \<Rightarrow> string \<Rightarrow> double \<Rightarrow> int"
  link_rc :: "AVFilterGraph \<Rightarrow> AVFilterLink \<Rightarrow> int"
  parse2 :: "AVFilterGraph \<Rightarrow> string \<Rightarrow>
               int \<times> AVFilterGraph \<times> AVFilterInOut list \<times> AVFilterInOut list"
  graph_config_rc :: "AVFilterGraph \<Rightarrow> int"

section \<open>Building a list of allowed formats\<close>

text \<open>\<^verbatim>\<open>av_strdup\<close> hands back a copy of its argument, or the null pointer when the
  argument is null or the memory for the copy is not granted.\<close>

definition av_strdup :: "env \<Rightarrow> string option \<Rightarrow> string option" where
  "av_strdup e s = (case s of None \<Rightarrow> None | Some t \<Rightarrow> if strdup_ok e t then Some t else None)"

text \<open>
  \<^verbatim>\<open>DEF_CHOOSE_FORMAT\<close>. The loop walks the array until it meets the sentinel \<open>none\<close>,
  printing each name followed by \<open>|\<close> into the dynamic buffer; \<^verbatim>\<open>%s\<close> of a null \<^verbatim>\<open>name\<close>
  reads through the null pointer.
\<close>

fun print_names ::
  "'a \<Rightarrow> ('a \<Rightarrow> string option) \<Rightarrow> 'a list \<Rightarrow> char list \<Rightarrow> fault + char list" where
  "print_names none get_name [] buf = Inl Read_Out_Of_Bounds"
| "print_names none get_name (p # ps) buf =
     (if p \<noteq> none
      then (case get_name p of
              None \<Rightarrow> Inl Read_Out_Of_Bounds
            | Some name \<Rightarrow> print_names none get_name ps (buf @ name @ ''|''))
      else Inr buf)"

text \<open>\<open>var\<close> is \<^verbatim>\<open>ost->st->codec->var\<close>; \<open>supported_list\<close> is \<open>None\<close> when \<^verbatim>\<open>ost->enc\<close> or
  its list is null. The result \<open>None\<close> is the null pointer.\<close>

definition choose_format ::
  "env \<Rightarrow> 'a \<Rightarrow> ('a \<Rightarrow> string option) \<Rightarrow> 'a \<Rightarrow> 'a list option \<Rightarrow> fault + string option" where
  "choose_format e none get_name var supported_list =
     (if var \<noteq> none then Inr (av_strdup e (get_name var))
      else case supported_list of
        Some arr \<Rightarrow>
          if dyn_buf_rc e < 0 then Inl (Exit 1)
          else (case print_names none get_name arr [] of
                  Inl f \<Rightarrow> Inl f
                | Inr buf \<Rightarrow>
                    let len = int (length buf) in
                    if len - 1 < 0 then Inl (Write_Out_Of_Bounds (len - 1))
                    else Inr (Some (c_str (buf[nat (len - 1) := CHR 0x00]))))
      | None \<Rightarrow> Inr None)"

definition enc_list :: "OutputStream \<Rightarrow> (AVCodec \<Rightarrow> 'a list option) \<Rightarrow> 'a list option" where
  "enc_list ost supported_list = (case enc ost of None \<Rightarrow> None | Some c \<Rightarrow> supported_list c)"

definition choose_pix_fmts :: "env \<Rightarrow> OutputStream \<Rightarrow> fault + string option" where
  "choose_pix_fmts e ost =
     choose_format e AV_PIX_FMT_NONE (pix_fmt_name e) (pix_fmt (codec (st ost))) (enc_list ost pix_fmts)"

definition choose_sample_fmts :: "env \<Rightarrow> OutputStream \<Rightarrow> fault + string option" where
  "choose_sample_fmts e ost =
     choose_format e AV_SAMPLE_FMT_NONE (sample_fmt_name e) (sample_fmt (codec (st ost)))
       (enc_list ost sample_fmts)"

definition choose_sample_rates :: "env \<Rightarrow> OutputStream \<Rightarrow> fault + string option" where
  "choose_sample_rates e ost =
     choose_format e 0 (sample_rate_name e) (sample_rate (codec (st ost)))
       (enc_list ost supported_samplerates)"

definition choose_channel_layouts :: "env \<Rightarrow> OutputStream \<Rightarrow> fault + string option" where
  "choose_channel_layouts e ost =
     choose_format e 0 (ch_layout_name e) (channel_layout (codec (st ost)))
       (enc_list ost channel_layouts)"

section \<open>Program state and memory\<close>

record state =
  input_streams :: "InputStream list"
  output_streams :: "OutputStream list"
  input_files :: "InputFile list"
  output_files :: "OutputFile list"
  filtergraphs :: "nat option list"       \<comment> \<open>the registry; \<^verbatim>\<open>nb_filtergraphs\<close> is its length\<close>
  fg_heap :: "FilterGraph list"
  ifilter_heap :: "InputFilter list"
  ofilter_heap :: "OutputFilter list"
  audio_sync_method :: int
  audio_volume :: int
  audio_drift_threshold :: double          \<comment> \<open>a \<^verbatim>\<open>float\<close>, passed to \<^verbatim>\<open>%f\<close> as a \<^verbatim>\<open>double\<close>\<close>

text \<open>Sequencing of calls that may fault.\<close>

definition seq :: "fault + 'a \<Rightarrow> ('a \<Rightarrow> fault + 'b) \<Rightarrow> fault + 'b" where
  "seq m k = (case m of Inl f \<Rightarrow> Inl f | Inr x \<Rightarrow> k x)"

text \<open>\<^verbatim>\<open>%s\<close> of a pointer to a text reads through the pointer.\<close>

definition fmt_s :: "string option \<Rightarrow> fault + string" where
  "fmt_s p = (case p of None \<Rightarrow> Inl Read_Out_Of_Bounds | Some txt \<Rightarrow> Inr txt)"

text \<open>Reading through a pointer, reading and storing at an index of an array.\<close>

definition deref :: "'a list \<Rightarrow> nat option \<Rightarrow> fault + 'a" where
  "deref heap p =
     (case p of None \<Rightarrow> Inl Read_Out_Of_Bounds
      | Some a \<Rightarrow> if a < length heap then Inr (heap ! a) else Inl Read_Out_Of_Bounds)"

definition load :: "'a list \<Rightarrow> int \<Rightarrow> fault + 'a" where
  "load arr i = (if 0 \<le> i \<and> nat i < length arr then Inr (arr ! nat i) else Inl Read_Out_Of_Bounds)"

definition store :: "'a list \<Rightarrow> int \<Rightarrow> 'a \<Rightarrow> fault + 'a list" where
  "store arr i v =
     (if 0 \<le> i \<and> nat i < length arr then Inr (arr[nat i := v]) else Inl (Write_Out_Of_Bounds i))"

definition upd_fg :: "nat \<Rightarrow> (FilterGraph \<Rightarrow> FilterGraph) \<Rightarrow> state \<Rightarrow> state" where
  "upd_fg p f s = s\<lparr>fg_heap := (fg_heap s)[p := f (fg_heap s ! p)]\<rparr>"

definition upd_ifilter :: "nat \<Rightarrow> (InputFilter \<Rightarrow> InputFilter) \<Rightarrow> state \<Rightarrow> state" where
  "upd_ifilter p f s = s\<lparr>ifilter_heap := (ifilter_heap s)[p := f (ifilter_heap s ! p)]\<rparr>"

definition upd_ofilter :: "nat \<Rightarrow> (OutputFilter \<Rightarrow> OutputFilter) \<Rightarrow> state \<Rightarrow> state" where
  "upd_ofilter p f s = s\<lparr>ofilter_heap := (ofilter_heap s)[p := f (ofilter_heap s ! p)]\<rparr>"

definition upd_ist :: "nat \<Rightarrow> (InputStream \<Rightarrow> InputStream) \<Rightarrow> state \<Rightarrow> state" where
  "upd_ist p f s = s\<lparr>input_streams := (input_streams s)[p := f (input_streams s ! p)]\<rparr>"

definition upd_ost :: "nat \<Rightarrow> (OutputStream \<Rightarrow> OutputStream) \<Rightarrow> state \<Rightarrow> state" where
  "upd_ost p f s = s\<lparr>output_streams := (output_streams s)[p := f (output_streams s ! p)]\<rparr>"

text \<open>\<^verbatim>\<open>if (!(p = av_mallocz(sizeof(*p)))) exit(1);\<close> for the three structures: the new
  object is zeroed and lives at a fresh address.\<close>

definition new_fg :: "env \<Rightarrow> state \<Rightarrow> fault + nat \<times> state" where
  "new_fg e s =
     (if alloc_ok e
      then Inr (length (fg_heap s),
                s\<lparr>fg_heap := fg_heap s @
                   [\<lparr>fg_index = 0, graph_desc = None, graph = None, inputs = [], outputs = []\<rparr>]\<rparr>)
      else Inl (Exit 1))"

definition new_ifilter :: "env \<Rightarrow> state \<Rightarrow> fault + nat \<times> state" where
  "new_ifilter e s =
     (if alloc_ok e
      then Inr (length (ifilter_heap s),
                s\<lparr>ifilter_heap := ifilter_heap s @
                   [\<lparr>if_filter = None, if_ist = None, if_graph = None, if_name = None\<rparr>]\<rparr>)
      else Inl (Exit 1))"

definition new_ofilter :: "env \<Rightarrow> state \<Rightarrow> fault + nat \<times> state" where
  "new_ofilter e s =
     (if alloc_ok e
      then Inr (length (ofilter_heap s),
                s\<lparr>ofilter_heap := ofilter_heap s @
                   [\<lparr>of_filter = None, of_ost = None, of_graph = None, of_name = None,
                     out_tmp = None\<rparr>]\<rparr>)
      else Inl (Exit 1))"

text \<open>Modelled from the spec: \<^verbatim>\<open>GROW_ARRAY\<close> (a macro of \<^verbatim>\<open>cmdutils.h\<close>, not part of this
  file) grows a manually managed array of pointers by one zeroed slot and counts it; the
  process ends with \<^verbatim>\<open>exit(1)\<close> when the memory is not granted.\<close>

definition GROW_ARRAY :: "env \<Rightarrow> 'a option list \<Rightarrow> fault + 'a option list" where
  "GROW_ARRAY e arr = (if alloc_ok e then Inr (arr @ [None]) else Inl (Exit 1))"

section \<open>Creating a simple filter graph\<close>

definition init_simple_filtergraph :: "env \<Rightarrow> nat \<Rightarrow> nat \<Rightarrow> state \<Rightarrow> fault + nat \<times> state" where
  "init_simple_filtergraph e ist ost s =
     seq (new_fg e s) (\<lambda>(fg, s1).
     let s2 = upd_fg fg (\<lambda>g. g\<lparr>fg_index := int (length (filtergraphs s1))\<rparr>) s1 in
     seq (GROW_ARRAY e (outputs (fg_heap s2 ! fg))) (\<lambda>outs.
     seq (new_ofilter e (upd_fg fg (\<lambda>g. g\<lparr>outputs := outs\<rparr>) s2)) (\<lambda>(ofl, s3).
     seq (store (outputs (fg_heap s3 ! fg)) 0 (Some ofl)) (\<lambda>outs'.
     let s4 = upd_fg fg (\<lambda>g. g\<lparr>outputs := outs'\<rparr>) s3;
         s5 = upd_ofilter ofl (\<lambda>f. f\<lparr>of_ost := Some ost\<rparr>) s4;
         s6 = upd_ofilter ofl (\<lambda>f. f\<lparr>of_graph := Some fg\<rparr>) s5 in
     seq (deref (output_streams s6) (Some ost)) (\<lambda>_.
     let s7 = upd_ost ost (\<lambda>x. x\<lparr>ost_filter := Some ofl\<rparr>) s6 in
     seq (GROW_ARRAY e (inputs (fg_heap s7 ! fg))) (\<lambda>ins.
     seq (new_ifilter e (upd_fg fg (\<lambda>g. g\<lparr>inputs := ins\<rparr>) s7)) (\<lambda>(ifl, s8).
     seq (store (inputs (fg_heap s8 ! fg)) 0 (Some ifl)) (\<lambda>ins'.
     let s9 = upd_fg fg (\<lambda>g. g\<lparr>inputs := ins'\<rparr>) s8;
         s10 = upd_ifilter ifl (\<lambda>f. f\<lparr>if_ist := Some ist\<rparr>) s9;
         s11 = upd_ifilter ifl (\<lambda>f. f\<lparr>if_graph := Some fg\<rparr>) s10 in
     seq (deref (input_streams s11) (Some ist)) (\<lambda>x.
     seq (GROW_ARRAY e (ist_filters x)) (\<lambda>fls.
     seq (store fls (int (length fls) - 1) (Some ifl)) (\<lambda>fls'.
     let s12 = upd_ist ist (\<lambda>x. x\<lparr>ist_filters := fls'\<rparr>) s11 in
     seq (GROW_ARRAY e (filtergraphs s12)) (\<lambda>reg.
     seq (store reg (int (length reg) - 1) (Some fg)) (\<lambda>reg'.
     Inr (fg, s12\<lparr>filtergraphs := reg'\<rparr>))))))))))))))"

section \<open>Binding an input endpoint to a stream\<close>

definition avfilter_pad_get_type :: "AVFilterPad list \<Rightarrow> int \<Rightarrow> fault + AVMediaType" where
  "avfilter_pad_get_type pads i = seq (load pads i) (\<lambda>p. Inr (pad_type p))"

definition avfilter_pad_get_name :: "AVFilterPad list \<Rightarrow> int \<Rightarrow> fault + string" where
  "avfilter_pad_get_name pads i = seq (load pads i) (\<lambda>p. Inr (pad_name p))"

text \<open>The graph handle of a filter graph, and a node of it.\<close>

definition fg_graph :: "state \<Rightarrow> nat \<Rightarrow> fault + AVFilterGraph" where
  "fg_graph s fg =
     seq (deref (fg_heap s) (Some fg)) (\<lambda>g.
     case graph g of None \<Rightarrow> Inl Read_Out_Of_Bounds | Some gr \<Rightarrow> Inr gr)"

definition node :: "AVFilterGraph \<Rightarrow> nat \<Rightarrow> fault + AVFilterContext" where
  "node gr c = deref (filters gr) (Some c)"

text \<open>The labelled case: the loop over \<^verbatim>\<open>s->streams\<close> stops at the first stream of the
  type that the specifier matches; \<open>None\<close> is \<^verbatim>\<open>st == NULL\<close> after the loop.\<close>

fun find_specified ::
  "env \<Rightarrow> InputStream list \<Rightarrow> nat \<Rightarrow> AVMediaType \<Rightarrow> string \<Rightarrow> nat list \<Rightarrow> fault + nat option" where
  "find_specified e iss file t spec [] = Inr None"
| "find_specified e iss file t spec (k # ks) =
     seq (deref iss (Some k)) (\<lambda>x.
     if codec_type (codec (ist_st x)) \<noteq> t then find_specified e iss file t spec ks
     else if check_stream_specifier e file k spec = 1 then Inr (Some k)
     else find_specified e iss file t spec ks)"

text \<open>The unlabelled case: the loop leaves \<open>i\<close> at the first stream of the type whose
  \<open>discard\<close> is set, or at \<^verbatim>\<open>nb_input_streams\<close>.\<close>

fun find_unused :: "AVMediaType \<Rightarrow> InputStream list \<Rightarrow> nat \<Rightarrow> nat" where
  "find_unused t [] i = i"
| "find_unused t (x # xs) i =
     (if codec_type (codec (ist_st x)) = t \<and> discard x \<noteq> 0 then i
      else find_unused t xs (Suc i))"

text \<open>The conversion of a \<^verbatim>\<open>long\<close> to \<^verbatim>\<open>int\<close>, as in \<^verbatim>\<open>int file_idx = strtol(...)\<close>: the
  value modulo \<open>2^32\<close> in the range of a 32-bit signed integer.\<close>

definition long_to_int :: "int \<Rightarrow> int" where
  "long_to_int v = (v + 2 ^ 31) mod 2 ^ 32 - 2 ^ 31"

definition select_stream :: "env \<Rightarrow> AVMediaType \<Rightarrow> AVFilterInOut \<Rightarrow> state \<Rightarrow> fault + nat" where
  "select_stream e t inp s =
     (case io_name inp of
        Some nm \<Rightarrow>
          let (v, p) = strtol e nm;
              file_idx = long_to_int v in
          if file_idx < 0 \<or> file_idx \<ge> int (length (input_files s)) then Inl (Exit 1)
          else
            let f = input_files s ! nat file_idx;
                spec = (if p \<noteq> [] \<and> hd p = CHR '':'' then tl p else p) in
            seq (find_specified e (input_streams s) (nat file_idx) t spec (ctx_streams f)) (\<lambda>st.
            case st of
              None \<Rightarrow> Inl (Exit 1)
            | Some k \<Rightarrow>
                let i = ist_index f + st_index (ist_st (input_streams s ! k)) in
                seq (load (input_streams s) i) (\<lambda>_. Inr (nat i)))
      | None \<Rightarrow>
          let i = find_unused t (input_streams s) 0 in
          if i = length (input_streams s) then Inl (Exit 1) else Inr i)"

definition init_input_filter :: "env \<Rightarrow> nat \<Rightarrow> AVFilterInOut \<Rightarrow> state \<Rightarrow> fault + state" where
  "init_input_filter e fg inp s =
     seq (fg_graph s fg) (\<lambda>gr.
     seq (node gr (filter_ctx inp)) (\<lambda>c.
     seq (avfilter_pad_get_type (input_pads c) (pad_idx inp)) (\<lambda>t.
     if t \<noteq> AVMEDIA_TYPE_VIDEO \<and> t \<noteq> AVMEDIA_TYPE_AUDIO then Inl (Exit 1)
     else
     seq (select_stream e t inp s) (\<lambda>ist.
     let s1 = upd_ist ist (\<lambda>x. x\<lparr>discard := 0\<rparr>) s;
         s2 = upd_ist ist (\<lambda>x. x\<lparr>decoding_needed := 1\<rparr>) s1;
         s3 = upd_ist ist (\<lambda>x. x\<lparr>ist_st := (ist_st x)\<lparr>st_discard := AVDISCARD_NONE\<rparr>\<rparr>) s2 in
     seq (GROW_ARRAY e (inputs (fg_heap s3 ! fg))) (\<lambda>ins.
     seq (new_ifilter e (upd_fg fg (\<lambda>g. g\<lparr>inputs := ins\<rparr>) s3)) (\<lambda>(ifl, s4).
     seq (store (inputs (fg_heap s4 ! fg)) (int (length (inputs (fg_heap s4 ! fg))) - 1) (Some ifl))
       (\<lambda>ins'.
     let s5 = upd_fg fg (\<lambda>g. g\<lparr>inputs := ins'\<rparr>) s4;
         s6 = upd_ifilter ifl (\<lambda>f. f\<lparr>if_ist := Some ist\<rparr>) s5;
         s7 = upd_ifilter ifl (\<lambda>f. f\<lparr>if_graph := Some fg\<rparr>) s6 in
     seq (GROW_ARRAY e (ist_filters (input_streams s7 ! ist))) (\<lambda>fls.
     seq (store fls (int (length fls) - 1) (Some ifl)) (\<lambda>fls'.
     Inr (upd_ist ist (\<lambda>x. x\<lparr>ist_filters := fls'\<rparr>) s7))))))))))"

text \<open>The loop \<^verbatim>\<open>for (cur = inputs; ...; cur = cur->next) init_input_filter(fg, cur);\<close>\<close>

fun init_input_filters :: "env \<Rightarrow> nat \<Rightarrow> AVFilterInOut list \<Rightarrow> state \<Rightarrow> fault + state" where
  "init_input_filters e fg [] s = Inr s"
| "init_input_filters e fg (cur # rest) s =
     seq (init_input_filter e fg cur s) (init_input_filters e fg rest)"

section \<open>The primitives of the execution engine\<close>

text \<open>
  Modelled from the spec: the node construction and linking primitives of libavfilter,
  which are not part of this file. They allocate a named node of a given type with a
  parameter string, and link a (node, output pad) to a (node, input pad); both can fail
  with a negative code, which leaves the graph without the node or the link. A node
  type the engine does not know is the null pointer, for which no node is allocated.
\<close>

definition avfilter_get_by_name :: "env \<Rightarrow> string \<Rightarrow> string option" where
  "avfilter_get_by_name e n = (if get_by_name e n then Some n else None)"

definition avfilter_graph_alloc :: "env \<Rightarrow> AVFilterGraph option" where
  "avfilter_graph_alloc e =
     (if graph_alloc_ok e
      then Some \<lparr>filters = [], links = [], scale_sws_opts = None, resample_lavr_opts = None\<rparr>
      else None)"

definition avfilter_graph_alloc_filter ::
  "env \<Rightarrow> AVFilterGraph \<Rightarrow> string option \<Rightarrow> string \<Rightarrow> (nat \<times> AVFilterGraph) option" where
  "avfilter_graph_alloc_filter e g filt nm =
     (case filt of
        None \<Rightarrow> None
      | Some f \<Rightarrow>
          if alloc_filter_ok e g f nm
          then Some (length (filters g),
                 g\<lparr>filters := filters g @
                     [\<lparr>filter_name = f, inst_name = nm, init_args = None, initialised = False,
                       options = [], input_pads = fst (filter_pads e f),
                       output_pads = snd (filter_pads e f)\<rparr>]\<rparr>)
          else None)"

definition avfilter_init_str ::
  "env \<Rightarrow> AVFilterGraph \<Rightarrow> nat \<Rightarrow> string option \<Rightarrow> int \<times> AVFilterGraph" where
  "avfilter_init_str e g c args =
     (let rc = init_str_rc e g c args in
      if rc < 0 then (rc, g)
      else (rc, g\<lparr>filters := (filters g)[c := (filters g ! c)\<lparr>init_args := args, initialised := True\<rparr>]\<rparr>))"

definition av_opt_set_double ::
  "env \<Rightarrow> AVFilterGraph \<Rightarrow> nat \<Rightarrow> string \<Rightarrow> double \<Rightarrow> int \<times> AVFilterGraph" where
  "av_opt_set_double e g c k v =
     (let rc = opt_set_double_rc e g c k v in
      if rc < 0 then (rc, g)
      else (rc, g\<lparr>filters := (filters g)[c := (filters g ! c)\<lparr>options := options (filters g ! c) @ [(k, v)]\<rparr>]\<rparr>))"

text \<open>The result is \<open>Inl ret\<close> with \<open>ret < 0\<close> and a null \<^verbatim>\<open>*filt_ctx\<close>, or \<open>Inr\<close> of the
  new node with the return value 0. A node whose initialisation fails is freed again.\<close>

definition avfilter_graph_create_filter ::
  "env \<Rightarrow> AVFilterGraph \<Rightarrow> string option \<Rightarrow> string \<Rightarrow> string option \<Rightarrow> (int + nat) \<times> AVFilterGraph" where
  "avfilter_graph_create_filter e g filt nm args =
     (case avfilter_graph_alloc_filter e g filt nm of
        None \<Rightarrow> (Inl AVERROR_ENOMEM, g)
      | Some (c, g1) \<Rightarrow>
          let (rc, g2) = avfilter_init_str e g1 c args in
          if rc < 0 then (Inl rc, g) else (Inr c, g2))"

definition avfilter_link ::
  "env \<Rightarrow> AVFilterGraph \<Rightarrow> nat \<Rightarrow> int \<Rightarrow> nat \<Rightarrow> int \<Rightarrow> int \<times> AVFilterGraph" where
  "avfilter_link e g src srcpad dst dstpad =
     (let rc = link_rc e g (src, srcpad, dst, dstpad) in
      if rc < 0 then (rc, g) else (rc, g\<lparr>links := links g @ [(src, srcpad, dst, dstpad)]\<rparr>))"

section \<open>The chain in front of a sink\<close>

text \<open>The graph under construction with the cursor \<^verbatim>\<open>last_filter\<close>, \<^verbatim>\<open>pad_idx\<close>; a
  step yields its return value and the cursor it leaves.\<close>

type_synonym cursor = "AVFilterGraph \<times> nat \<times> int"

text \<open>\<^verbatim>\<open>if (ret < 0) return ret;\<close> between two steps.\<close>

definition on_success ::
  "fault + int \<times> cursor \<Rightarrow> (cursor \<Rightarrow> fault + int \<times> cursor) \<Rightarrow> fault + int \<times> cursor" where
  "on_success r k = seq r (\<lambda>(ret, c). if ret < 0 then Inr (ret, c) else k c)"

text \<open>The statements every inserted node of the output chains goes through:
  \<^verbatim>\<open>avfilter_graph_create_filter\<close> with the type found by name, \<^verbatim>\<open>avfilter_link\<close> from the
  cursor to input pad 0 of the new node, and the move of the cursor to its output pad 0.\<close>

definition append_filter ::
  "env \<Rightarrow> string \<Rightarrow> string \<Rightarrow> string option \<Rightarrow> cursor \<Rightarrow> int \<times> cursor" where
  "append_filter e ftype nm args cur =
     (case cur of (g, last_filter, pad) \<Rightarrow>
      case avfilter_graph_create_filter e g (avfilter_get_by_name e ftype) nm args of
        (Inl ret, g1) \<Rightarrow> (ret, g1, last_filter, pad)
      | (Inr flt, g1) \<Rightarrow>
          let (ret, g2) = avfilter_link e g1 last_filter pad flt 0 in
          if ret < 0 then (ret, g2, last_filter, pad) else (0, g2, flt, 0))"

definition stream_label :: "OutputStream \<Rightarrow> string" where
  "stream_label ost = fmt_d (ost_file_index ost) @ '':'' @ fmt_d (ost_index ost)"

text \<open>The two parameters of the trim node: \<open>duration\<close> when the recording time is finite,
  then \<open>start\<close> when that went well and the start time is not zero. \<open>usec t\<close> is the
  \<^verbatim>\<open>double\<close> value \<^verbatim>\<open>(double)t / 1e6\<close>.\<close>

definition usec :: "int \<Rightarrow> double" where
  "usec t = Double_div (Double_of_int t) (Double_const 1000000)"

definition set_trim_options :: "env \<Rightarrow> OutputFile \<Rightarrow> AVFilterGraph \<Rightarrow> nat \<Rightarrow> int \<times> AVFilterGraph" where
  "set_trim_options e ofile g ctx =
     (let (ret, g1) =
            (if recording_time ofile \<noteq> INT64_MAX
             then av_opt_set_double e g ctx ''duration'' (usec (recording_time ofile))
             else (0, g))
      in if ret \<ge> 0 \<and> start_time ofile \<noteq> 0
         then av_opt_set_double e g1 ctx ''start'' (usec (start_time ofile))
         else (ret, g1))"

definition insert_trim ::
  "env \<Rightarrow> OutputFile list \<Rightarrow> OutputStream \<Rightarrow> cursor \<Rightarrow> fault + int \<times> cursor" where
  "insert_trim e ofs ost cur =
     (case cur of (g, last_filter, pad) \<Rightarrow>
      seq (load ofs (ost_file_index ost)) (\<lambda>ofile.
      seq (node g last_filter) (\<lambda>_.
      let name = (if codec_type (codec (st ost)) = AVMEDIA_TYPE_VIDEO then ''trim'' else ''atrim'') in
      if recording_time ofile = INT64_MAX \<and> start_time ofile = 0 then Inr (0, cur)
      else
        case avfilter_get_by_name e name of
          None \<Rightarrow> Inr (AVERROR_FILTER_NOT_FOUND, cur)
        | Some trim \<Rightarrow>
            let fname = snprintf 128 (name @ '' for output stream '' @ stream_label ost) in
            case avfilter_graph_alloc_filter e g (Some trim) fname of
              None \<Rightarrow> Inr (AVERROR_ENOMEM, cur)
            | Some (ctx, g1) \<Rightarrow>
                let (ret, g2) = set_trim_options e ofile g1 ctx in
                if ret < 0 then Inr (ret, g2, last_filter, pad)
                else
                  let (ret, g3) = avfilter_init_str e g2 ctx None in
                  if ret < 0 then Inr (ret, g3, last_filter, pad)
                  else
                    let (ret, g4) = avfilter_link e g3 last_filter pad ctx 0 in
                    if ret < 0 then Inr (ret, g4, last_filter, pad)
                    else Inr (0, g4, ctx, 0))))"

text \<open>The last statement of both output configurers: the link into the sink.\<close>

definition link_sink :: "env \<Rightarrow> nat \<Rightarrow> cursor \<Rightarrow> fault + int \<times> cursor" where
  "link_sink e sink cur =
     (case cur of (g, last_filter, pad) \<Rightarrow>
      let (ret, g1) = avfilter_link e g last_filter pad sink 0 in
      if ret < 0 then Inr (ret, g1, last_filter, pad) else Inr (0, g1, last_filter, pad))"

section \<open>Configuring a video output\<close>

text \<open>The three conditional blocks of \<open>configure_output_video_filter\<close>, in the order of
  the source: the scaler, the pixel format constraint, the frame rate.\<close>

definition video_scale :: "env \<Rightarrow> OutputStream \<Rightarrow> cursor \<Rightarrow> fault + int \<times> cursor" where
  "video_scale e ost cur =
     (let cdc = codec (st ost) in
      if width cdc \<noteq> 0 \<or> height cdc \<noteq> 0
      then Inr (append_filter e ''scale''
                 (snprintf 255 (''scaler for output stream '' @ stream_label ost))
                 (Some (snprintf 255 (fmt_d (width cdc) @ '':'' @ fmt_d (height cdc) @ '':0x'' @
                                      fmt_X (to_unsigned (sws_flags ost)))))
                 cur)
      else Inr (0, cur))"

definition video_format :: "env \<Rightarrow> OutputStream \<Rightarrow> cursor \<Rightarrow> fault + int \<times> cursor" where
  "video_format e ost cur =
     seq (choose_pix_fmts e ost) (\<lambda>fmts_opt.
     case fmts_opt of
       Some fmts \<Rightarrow> Inr (append_filter e ''format'' ''format'' (Some fmts) cur)
     | None \<Rightarrow> Inr (0, cur))"

definition video_fps :: "env \<Rightarrow> OutputStream \<Rightarrow> cursor \<Rightarrow> fault + int \<times> cursor" where
  "video_fps e ost cur =
     (if fst (frame_rate ost) \<noteq> 0
      then Inr (append_filter e ''fps''
                 (snprintf 255 (''fps for output stream '' @ stream_label ost))
                 (Some (snprintf 255 (''fps='' @ fmt_d (fst (frame_rate ost)) @ ''/'' @
                                      fmt_d (snd (frame_rate ost)))))
                 cur)
      else Inr (0, cur))"

text \<open>\<open>ost\<close> is \<^verbatim>\<open>ofilter->ost\<close>, \<open>g\<close> is \<^verbatim>\<open>fg->graph\<close>. The result is the return value, the
  new \<^verbatim>\<open>ofilter->filter\<close> and the graph.\<close>

definition configure_output_video_filter ::
  "env \<Rightarrow> OutputFile list \<Rightarrow> OutputStream \<Rightarrow> AVFilterInOut \<Rightarrow> AVFilterGraph \<Rightarrow>
     fault + int \<times> nat option \<times> AVFilterGraph" where
  "configure_output_video_filter e ofs ost out g =
     (case avfilter_graph_create_filter e g (avfilter_get_by_name e ''buffersink'')
             (snprintf 255 (''output stream '' @ stream_label ost)) None of
        (Inl ret, g1) \<Rightarrow> Inr (ret, None, g1)
      | (Inr sink, g1) \<Rightarrow>
          seq (on_success (on_success (on_success (on_success
                 (video_scale e ost (g1, filter_ctx out, pad_idx out))
                 (video_format e ost))
                 (video_fps e ost))
                 (insert_trim e ofs ost))
                 (link_sink e sink))
            (\<lambda>(ret, g2, last_filter, pad). Inr (ret, Some sink, g2)))"

section \<open>Configuring an audio output\<close>

text \<open>One \<^verbatim>\<open>len += snprintf(args + len, sizeof(args) - len, "key=%s:", val)\<close> on
  \<^verbatim>\<open>char args[256]\<close>. \<open>buf\<close> holds the bytes stored so far from the start of the array. With
  \<open>len\<close> beyond the array the destination lies outside it and the size wraps around.\<close>

definition append_clause ::
  "char list \<times> int \<Rightarrow> string \<Rightarrow> string option \<Rightarrow> fault + char list \<times> int" where
  "append_clause b key val =
     (case b of (buf, len) \<Rightarrow>
      case val of
        None \<Rightarrow> Inr (buf, len)
      | Some v \<Rightarrow>
          if len > 256 then Inl (Write_Out_Of_Bounds len)
          else
            let txt = key @ v @ '':'';
                n = nat (256 - len)
            in Inr (if n = 0 then buf else take (nat len) buf @ take (n - 1) txt @ [CHR 0x00],
                    len + int (length txt)))"

text \<open>The argument string of the combined format node, ending with
  \<^verbatim>\<open>args[len - 1] = 0\<close>.\<close>

definition aformat_args :: "string option \<Rightarrow> string option \<Rightarrow> string option \<Rightarrow> fault + string" where
  "aformat_args fmts rates layouts =
     seq (append_clause ([], 0) ''sample_fmts='' fmts) (\<lambda>b1.
     seq (append_clause b1 ''sample_rates='' rates) (\<lambda>b2.
     seq (append_clause b2 ''channel_layouts='' layouts) (\<lambda>(buf, len).
     if 0 \<le> len - 1 \<and> len - 1 < 256
     then Inr (c_str (buf[nat (len - 1) := CHR 0x00]))
     else Inl (Write_Out_Of_Bounds (len - 1)))))"

definition audio_format :: "env \<Rightarrow> OutputStream \<Rightarrow> cursor \<Rightarrow> fault + int \<times> cursor" where
  "audio_format e ost cur =
     seq (choose_sample_fmts e ost) (\<lambda>fmts.
     seq (choose_sample_rates e ost) (\<lambda>rates.
     seq (choose_channel_layouts e ost) (\<lambda>layouts.
     if fmts \<noteq> None \<or> rates \<noteq> None \<or> layouts \<noteq> None
     then seq (aformat_args fmts rates layouts) (\<lambda>args.
            Inr (append_filter e ''aformat''
                   (snprintf 255 (''audio format for output stream '' @ stream_label ost))
                   (Some args) cur))
     else Inr (0, cur))))"

text \<open>The result carries the output stream as well: the code may set its codec's
  \<open>channel_layout\<close>.\<close>

definition configure_output_audio_filter ::
  "env \<Rightarrow> OutputFile list \<Rightarrow> OutputStream \<Rightarrow> AVFilterInOut \<Rightarrow> AVFilterGraph \<Rightarrow>
     fault + int \<times> nat option \<times> AVFilterGraph \<times> OutputStream" where
  "configure_output_audio_filter e ofs ost out g =
     (case avfilter_graph_create_filter e g (avfilter_get_by_name e ''abuffersink'')
             (snprintf 255 (''output stream '' @ stream_label ost)) None of
        (Inl ret, g1) \<Rightarrow> Inr (ret, None, g1, ost)
      | (Inr sink, g1) \<Rightarrow>
          let cdc = codec (st ost);
              ost1 = (if channels cdc \<noteq> 0 \<and> channel_layout cdc = 0
                      then ost\<lparr>st := (st ost)\<lparr>codec :=
                             cdc\<lparr>channel_layout := default_channel_layout e (channels cdc)\<rparr>\<rparr>\<rparr>
                      else ost)
          in
          seq (on_success (on_success
                 (audio_format e ost1 (g1, filter_ctx out, pad_idx out))
                 (insert_trim e ofs ost1))
                 (link_sink e sink))
            (\<lambda>(ret, g2, last_filter, pad). Inr (ret, Some sink, g2, ost1)))"

section \<open>Configuring one endpoint\<close>

text \<open>\<^verbatim>\<open>DESCRIBE_FILTER_LINK\<close>: the name of the endpoint's node type, followed by the name
  of the pad when the node has more than one pad on that side.\<close>

definition describe_filter_link :: "env \<Rightarrow> AVFilterContext \<Rightarrow> AVFilterInOut \<Rightarrow> bool \<Rightarrow> fault + string" where
  "describe_filter_link e ctx inout inp =
     (let pads = (if inp then input_pads ctx else output_pads ctx) in
      if dyn_buf_rc e < 0 then Inl (Exit 1)
      else if length pads > 1
      then seq (avfilter_pad_get_name pads (pad_idx inout)) (\<lambda>pn.
             Inr (c_str (filter_name ctx @ '':'' @ pn @ [CHR 0x00])))
      else Inr (c_str (filter_name ctx @ [CHR 0x00])))"

definition configure_output_filter ::
  "env \<Rightarrow> nat \<Rightarrow> nat option \<Rightarrow> AVFilterInOut \<Rightarrow> state \<Rightarrow> fault + int \<times> state" where
  "configure_output_filter e fg ofp out s =
     seq (deref (ofilter_heap s) ofp) (\<lambda>ofl.
     seq (fg_graph s fg) (\<lambda>g.
     seq (node g (filter_ctx out)) (\<lambda>ctx.
     seq (describe_filter_link e ctx out False) (\<lambda>nm.
     seq (avfilter_pad_get_type (output_pads ctx) (pad_idx out)) (\<lambda>t.
     if t = AVMEDIA_TYPE_VIDEO then
       seq (deref (output_streams s) (of_ost ofl)) (\<lambda>ost.
       seq (configure_output_video_filter e (output_files s) ost out g) (\<lambda>(ret, flt, g').
       Inr (ret,
            upd_fg fg (\<lambda>x. x\<lparr>graph := Some g'\<rparr>)
              (upd_ofilter (the ofp) (\<lambda>x. x\<lparr>of_name := Some nm, of_filter := flt\<rparr>) s))))
     else if t = AVMEDIA_TYPE_AUDIO then
       seq (deref (output_streams s) (of_ost ofl)) (\<lambda>ost.
       seq (configure_output_audio_filter e (output_files s) ost out g) (\<lambda>(ret, flt, g', ost').
       Inr (ret,
            upd_ost (the (of_ost ofl)) (\<lambda>x. ost')
              (upd_fg fg (\<lambda>x. x\<lparr>graph := Some g'\<rparr>)
                (upd_ofilter (the ofp) (\<lambda>x. x\<lparr>of_name := Some nm, of_filter := flt\<rparr>) s)))))
     else Inl Assert_Failed)))))"

section \<open>Configuring an input\<close>

definition av_inv_q :: "AVRational \<Rightarrow> AVRational" where
  "av_inv_q q = (snd q, fst q)"

text \<open>The source is linked in front of the first node of the user's graph: a new node
  takes the place of \<^verbatim>\<open>first_filter\<close> and is linked into the old one.\<close>

definition prepend_filter ::
  "env \<Rightarrow> string \<Rightarrow> string \<Rightarrow> string option \<Rightarrow> cursor \<Rightarrow> int \<times> cursor" where
  "prepend_filter e ftype nm args cur =
     (case cur of (g, first_filter, pad) \<Rightarrow>
      case avfilter_graph_create_filter e g (avfilter_get_by_name e ftype) nm args of
        (Inl ret, g1) \<Rightarrow> (ret, g1, first_filter, pad)
      | (Inr flt, g1) \<Rightarrow>
          let (ret, g2) = avfilter_link e g1 flt 0 first_filter pad in
          if ret < 0 then (ret, g2, first_filter, pad) else (0, g2, flt, 0))"

definition link_source :: "env \<Rightarrow> nat \<Rightarrow> cursor \<Rightarrow> fault + int \<times> cursor" where
  "link_source e src cur =
     (case cur of (g, first_filter, pad) \<Rightarrow>
      let (ret, g1) = avfilter_link e g src 0 first_filter pad in
      if ret < 0 then Inr (ret, g1, first_filter, pad) else Inr (0, g1, first_filter, pad))"

definition input_label :: "InputStream \<Rightarrow> string" where
  "input_label ist = fmt_d (ist_file_index ist) @ '':'' @ fmt_d (st_index (ist_st ist))"

text \<open>\<open>ist\<close> is \<^verbatim>\<open>ifilter->ist\<close>, \<open>g\<close> is \<^verbatim>\<open>fg->graph\<close> and \<open>idx\<close> is \<^verbatim>\<open>fg->index\<close>. The
  result is the return value, the new \<^verbatim>\<open>ifilter->filter\<close> and the graph.\<close>

definition configure_input_video_filter ::
  "env \<Rightarrow> int \<Rightarrow> InputStream \<Rightarrow> AVFilterInOut \<Rightarrow> AVFilterGraph \<Rightarrow>
     fault + int \<times> nat option \<times> AVFilterGraph" where
  "configure_input_video_filter e idx ist inp g =
     (let tb = (if fst (framerate ist) \<noteq> 0 then av_inv_q (framerate ist)
                else time_base (ist_st ist));
          sar = (if fst (st_sample_aspect_ratio (ist_st ist)) \<noteq> 0
                 then st_sample_aspect_ratio (ist_st ist)
                 else codec_sample_aspect_ratio (codec (ist_st ist)));
          cdc = codec (ist_st ist);
          args = snprintf 255
                   (fmt_d (width cdc) @ '':'' @ fmt_d (height cdc) @ '':'' @ fmt_d (pix_fmt cdc) @ '':'' @
                    fmt_d (fst tb) @ '':'' @ fmt_d (snd tb) @ '':'' @
                    fmt_d (fst sar) @ '':'' @ fmt_d (snd sar));
          name = snprintf 255 (''graph '' @ fmt_d idx @ '' input from stream '' @ input_label ist)
      in
      case avfilter_graph_create_filter e g (avfilter_get_by_name e ''buffer'') name (Some args) of
        (Inl ret, g1) \<Rightarrow> Inr (ret, None, g1)
      | (Inr src, g1) \<Rightarrow>
          seq (on_success
                 (if fst (framerate ist) \<noteq> 0
                  then Inr (prepend_filter e ''setpts''
                         (snprintf 255 (''force CFR for input from stream '' @ input_label ist))
                         (Some ''N'') (g1, filter_ctx inp, pad_idx inp))
                  else Inr (0, g1, filter_ctx inp, pad_idx inp))
                 (link_source e src))
            (\<lambda>(ret, g2, first_filter, pad). Inr (ret, Some src, g2)))"

text \<open>The globals \<^verbatim>\<open>audio_sync_method\<close>, \<^verbatim>\<open>audio_drift_threshold\<close> and \<^verbatim>\<open>audio_volume\<close> are
  \<open>sync\<close>, \<open>drift\<close> and \<open>vol\<close>.\<close>

definition to_uint64 :: "int \<Rightarrow> nat" where
  "to_uint64 v = nat (v mod 2 ^ 64)"

definition configure_input_audio_filter ::
  "env \<Rightarrow> int \<Rightarrow> double \<Rightarrow> int \<Rightarrow> int \<Rightarrow> InputStream \<Rightarrow> AVFilterInOut \<Rightarrow> AVFilterGraph \<Rightarrow>
     fault + int \<times> nat option \<times> AVFilterGraph" where
  "configure_input_audio_filter e sync drift vol idx ist inp g =
     seq (fmt_s (sample_fmt_name e (sample_fmt (codec (ist_st ist))))) (\<lambda>fmt_name.
      let cdc = codec (ist_st ist);
          args = snprintf 255
                   (''time_base='' @ fmt_d 1 @ ''/'' @ fmt_d (sample_rate cdc) @
                    '':sample_rate='' @ fmt_d (sample_rate cdc) @
                    '':sample_fmt='' @ fmt_name @
                    '':channel_layout=0x'' @ fmt_x (to_uint64 (channel_layout cdc)));
          name = snprintf 255 (''graph '' @ fmt_d idx @ '' input from stream '' @ input_label ist)
      in
      case avfilter_graph_create_filter e g (avfilter_get_by_name e ''abuffer'') name (Some args) of
        (Inl ret, g1) \<Rightarrow> Inr (ret, None, g1)
      | (Inr src, g1) \<Rightarrow>
          seq (on_success (on_success
                 (if sync > 0
                  then Inr (prepend_filter e ''asyncts''
                         (snprintf 255 (''graph '' @ fmt_d idx @ '' audio sync for input stream '' @
                                        input_label ist))
                         (Some (snprintf 255
                            ((if sync > 1 then ''compensate=1:max_comp='' @ fmt_d sync @ '':'' else [])
                             @ ''min_delta='' @ fmt_f e drift)))
                         (g1, filter_ctx inp, pad_idx inp))
                  else Inr (0, g1, filter_ctx inp, pad_idx inp))
                 (\<lambda>cur.
                    if vol \<noteq> 256
                    then Inr (prepend_filter e ''volume''
                           (snprintf 255 (''graph '' @ fmt_d idx @ '' volume for input stream '' @
                                          input_label ist))
                           (Some (snprintf 255 (''volume='' @
                              fmt_f e (Double_div (Double_of_int vol) (Double_const 256)))))
                           cur)
                    else Inr (0, cur)))
                 (link_source e src))
            (\<lambda>(ret, g2, first_filter, pad). Inr (ret, Some src, g2)))"

definition configure_input_filter ::
  "env \<Rightarrow> nat \<Rightarrow> nat option \<Rightarrow> AVFilterInOut \<Rightarrow> state \<Rightarrow> fault + int \<times> state" where
  "configure_input_filter e fg ifp inp s =
     seq (deref (ifilter_heap s) ifp) (\<lambda>ifl.
     seq (deref (fg_heap s) (Some fg)) (\<lambda>G.
     seq (fg_graph s fg) (\<lambda>g.
     seq (node g (filter_ctx inp)) (\<lambda>ctx.
     seq (describe_filter_link e ctx inp True) (\<lambda>nm.
     seq (avfilter_pad_get_type (input_pads ctx) (pad_idx inp)) (\<lambda>t.
     if t = AVMEDIA_TYPE_VIDEO \<or> t = AVMEDIA_TYPE_AUDIO then
       seq (deref (input_streams s) (if_ist ifl)) (\<lambda>ist.
       seq (if t = AVMEDIA_TYPE_VIDEO
            then configure_input_video_filter e (fg_index G) ist inp g
            else configure_input_audio_filter e (audio_sync_method s) (audio_drift_threshold s)
                   (audio_volume s) (fg_index G) ist inp g)
         (\<lambda>(ret, flt, g').
       Inr (ret,
            upd_fg fg (\<lambda>x. x\<lparr>graph := Some g'\<rparr>)
              (upd_ifilter (the ifp) (\<lambda>x. x\<lparr>if_name := Some nm, if_filter := flt\<rparr>) s))))
     else Inl Assert_Failed))))))"

section \<open>Assembling a filter graph\<close>

text \<open>The resampler options of a simple graph: \<^verbatim>\<open>av_strlcatf\<close> appends \<open>key=value:\<close> for
  each entry of the dictionary within 512 bytes, and the last character is cut.\<close>

fun lavr_opts :: "(string \<times> string) list \<Rightarrow> string \<Rightarrow> string" where
  "lavr_opts [] args = args"
| "lavr_opts ((k, v) # es) args = lavr_opts es (take 511 (args @ k @ ''='' @ v @ '':''))"

definition simple_graph_options :: "env \<Rightarrow> OutputStream \<Rightarrow> AVFilterGraph \<Rightarrow> AVFilterGraph" where
  "simple_graph_options e ost g =
     (let args = lavr_opts (resample_opts ost) [] in
      g\<lparr>scale_sws_opts :=
          av_strdup e (Some (snprintf 512 (''flags=0x'' @ fmt_X (to_unsigned (sws_flags ost))))),
        resample_lavr_opts := av_strdup e (Some (if args \<noteq> [] then butlast args else args))\<rparr>)"

text \<open>The loop over the input endpoints stops at the first negative return value.\<close>

fun configure_input_filters ::
  "env \<Rightarrow> nat \<Rightarrow> AVFilterInOut list \<Rightarrow> int \<Rightarrow> state \<Rightarrow> fault + int \<times> state" where
  "configure_input_filters e fg [] i s = Inr (0, s)"
| "configure_input_filters e fg (cur # rest) i s =
     seq (deref (fg_heap s) (Some fg)) (\<lambda>G.
     seq (load (inputs G) i) (\<lambda>ifp.
     seq (configure_input_filter e fg ifp cur s) (\<lambda>(ret, s1).
     if ret < 0 then Inr (ret, s1) else configure_input_filters e fg rest (i + 1) s1)))"

text \<open>The loop over the output endpoints calls \<open>configure_output_filter\<close> as a statement:
  its return value is not used.\<close>

fun configure_output_filters ::
  "env \<Rightarrow> nat \<Rightarrow> AVFilterInOut list \<Rightarrow> int \<Rightarrow> state \<Rightarrow> fault + state" where
  "configure_output_filters e fg [] i s = Inr s"
| "configure_output_filters e fg (cur # rest) i s =
     seq (deref (fg_heap s) (Some fg)) (\<lambda>G.
     seq (load (outputs G) i) (\<lambda>ofp.
     seq (configure_output_filter e fg ofp cur s) (\<lambda>(ret, s1).
     configure_output_filters e fg rest (i + 1) s1)))"

text \<open>The loop that keeps the output endpoints for a later pass.\<close>

fun defer_outputs :: "env \<Rightarrow> nat \<Rightarrow> AVFilterInOut list \<Rightarrow> state \<Rightarrow> fault + state" where
  "defer_outputs e fg [] s = Inr s"
| "defer_outputs e fg (cur # rest) s =
     seq (deref (fg_heap s) (Some fg)) (\<lambda>G.
     seq (GROW_ARRAY e (outputs G)) (\<lambda>outs.
     seq (new_ofilter e (upd_fg fg (\<lambda>x. x\<lparr>outputs := outs\<rparr>) s)) (\<lambda>(ofl, s1).
     seq (store outs (int (length outs) - 1) (Some ofl)) (\<lambda>outs'.
     defer_outputs e fg rest
       (upd_ofilter ofl (\<lambda>x. x\<lparr>of_graph := Some fg, out_tmp := Some cur\<rparr>)
         (upd_fg fg (\<lambda>x. x\<lparr>outputs := outs'\<rparr>) s1))))))"

definition configure_filtergraph :: "env \<Rightarrow> nat \<Rightarrow> state \<Rightarrow> fault + int \<times> state" where
  "configure_filtergraph e fg s =
     seq (deref (fg_heap s) (Some fg)) (\<lambda>G.
     let init = (graph G = None);
         simple = (graph_desc G = None)
     in
     seq (if simple
          then seq (load (outputs G) 0) (\<lambda>ofp.
               seq (deref (ofilter_heap s) ofp) (\<lambda>ofl.
               seq (deref (output_streams s) (of_ost ofl)) (\<lambda>ost. Inr (avfilter ost, Some ost))))
          else Inr (the (graph_desc G), None)) (\<lambda>(desc, simple_ost).
     case avfilter_graph_alloc e of
       None \<Rightarrow> Inr (AVERROR_ENOMEM, upd_fg fg (\<lambda>x. x\<lparr>graph := None\<rparr>) s)
     | Some g0 \<Rightarrow>
         let g1 = (case simple_ost of Some ost \<Rightarrow> simple_graph_options e ost g0 | None \<Rightarrow> g0) in
         case parse2 e g1 desc of (ret, g2, ins, outs) \<Rightarrow>
         let s1 = upd_fg fg (\<lambda>x. x\<lparr>graph := Some g2\<rparr>) s in
         if ret < 0 then Inr (ret, s1)
         else if simple \<and> (length ins \<noteq> 1 \<or> length outs \<noteq> 1) then Inr (AVERROR_EINVAL, s1)
         else
           seq (if \<not> simple \<and> init then init_input_filters e fg ins s1 else Inr s1) (\<lambda>s2.
           seq (configure_input_filters e fg ins 0 s2) (\<lambda>(ret, s3).
           if ret < 0 then Inr (ret, s3)
           else if \<not> init \<or> simple then
             seq (configure_output_filters e fg outs 0 s3) (\<lambda>s4.
             seq (fg_graph s4 fg) (\<lambda>g.
             let ret = graph_config_rc e g in
             if ret < 0 then Inr (ret, s4) else Inr (0, s4)))
           else
             seq (defer_outputs e fg outs s3) (\<lambda>s4. Inr (0, s4))))))"

section \<open>Notions used to state the properties\<close>

text \<open>The attribute selector of the format negotiation: one value per instance of
  \<^verbatim>\<open>DEF_CHOOSE_FORMAT\<close>.\<close>

datatype attribute = Pix_Fmt | Sample_Fmt | Sample_Rate | Channel_Layout

definition choose_for :: "env \<Rightarrow> attribute \<Rightarrow> OutputStream \<Rightarrow> fault + string option" where
  "choose_for e a ost =
     (case a of
        Pix_Fmt \<Rightarrow> choose_pix_fmts e ost
      | Sample_Fmt \<Rightarrow> choose_sample_fmts e ost
      | Sample_Rate \<Rightarrow> choose_sample_rates e ost
      | Channel_Layout \<Rightarrow> choose_channel_layouts e ost)"

definition attr_none :: "attribute \<Rightarrow> int" where
  "attr_none a =
     (case a of Pix_Fmt \<Rightarrow> AV_PIX_FMT_NONE | Sample_Fmt \<Rightarrow> AV_SAMPLE_FMT_NONE
      | Sample_Rate \<Rightarrow> 0 | Channel_Layout \<Rightarrow> 0)"

definition attr_value :: "attribute \<Rightarrow> OutputStream \<Rightarrow> int" where
  "attr_value a ost =
     (case a of
        Pix_Fmt \<Rightarrow> pix_fmt (codec (st ost))
      | Sample_Fmt \<Rightarrow> sample_fmt (codec (st ost))
      | Sample_Rate \<Rightarrow> sample_rate (codec (st ost))
      | Channel_Layout \<Rightarrow> channel_layout (codec (st ost)))"

definition attr_list :: "attribute \<Rightarrow> OutputStream \<Rightarrow> int list option" where
  "attr_list a ost =
     (case a of
        Pix_Fmt \<Rightarrow> enc_list ost pix_fmts
      | Sample_Fmt \<Rightarrow> enc_list ost sample_fmts
      | Sample_Rate \<Rightarrow> enc_list ost supported_samplerates
      | Channel_Layout \<Rightarrow> enc_list ost channel_layouts)"

definition attr_name :: "env \<Rightarrow> attribute \<Rightarrow> int \<Rightarrow> string option" where
  "attr_name e a =
     (case a of Pix_Fmt \<Rightarrow> pix_fmt_name e | Sample_Fmt \<Rightarrow> sample_fmt_name e
      | Sample_Rate \<Rightarrow> sample_rate_name e | Channel_Layout \<Rightarrow> ch_layout_name e)"

text \<open>The values a sentinel-terminated array declares: those before the first sentinel.\<close>

definition supported_values :: "'a \<Rightarrow> 'a list \<Rightarrow> 'a list" where
  "supported_values none arr = takeWhile (\<lambda>p. p \<noteq> none) arr"

text \<open>Names joined by the separator \<open>|\<close>, and the fields of a text between separators.\<close>

fun join_names :: "string list \<Rightarrow> string" where
  "join_names [] = []"
| "join_names [n] = n"
| "join_names (n # m # ns) = n @ ''|'' @ join_names (m # ns)"

fun fields :: "char \<Rightarrow> string \<Rightarrow> string list" where
  "fields sep [] = [[]]"
| "fields sep (c # cs) =
     (if c = sep then [] # fields sep cs
      else (case fields sep cs of [] \<Rightarrow> [[c]] | f # fs \<Rightarrow> (c # f) # fs))"

text \<open>A canonical name is a C string without the separator.\<close>

definition canonical_name :: "string \<Rightarrow> bool" where
  "canonical_name n = (CHR 0x00 \<notin> set n \<and> CHR ''|'' \<notin> set n)"

text \<open>An input stream is unused for a media type when it has that type and its \<open>discard\<close>
  flag is set. \<open>bound_stream\<close> is the stream an \<open>InputFilter *\<close> is bound to.\<close>

definition unused :: "AVMediaType \<Rightarrow> InputStream \<Rightarrow> bool" where
  "unused t x = (codec_type (codec (ist_st x)) = t \<and> discard x \<noteq> 0)"

definition bound_stream :: "state \<Rightarrow> nat option \<Rightarrow> nat option" where
  "bound_stream s p = (case deref (ifilter_heap s) p of Inl f \<Rightarrow> None | Inr x \<Rightarrow> if_ist x)"

subsection \<open>Sample surroundings and streams\<close>

text \<open>The number a \<^verbatim>\<open>double\<close> expression stands for when no operation rounds; the sample
  surroundings print it with \<^verbatim>\<open>%f\<close> cut to its integer part.\<close>

fun unrounded :: "double \<Rightarrow> rat" where
  "unrounded (Double_of_int i) = of_int i"
| "unrounded (Double_const r) = r"
| "unrounded (Double_div x y) = unrounded x / unrounded y"

definition env0 :: env where
  "env0 =
     \<lparr>alloc_ok = True, dyn_buf_rc = 0,
      strdup_ok = (\<lambda>t. True),
      pix_fmt_name = (\<lambda>v. if v = 0 then Some ''yuv420p'' else if v = 2 then Some ''rgb24'' else None),
      sample_fmt_name = (\<lambda>v. if v = 1 then Some ''s16'' else if v = 3 then Some ''flt'' else None),
      sample_rate_name = (\<lambda>v. Some (fmt_d v)),
      ch_layout_name = (\<lambda>v. Some (''0x'' @ fmt_x (to_uint64 v))),
      default_channel_layout = (\<lambda>n. if n = 1 then 4 else if n = 2 then 3 else 0),
      fmt_f = (\<lambda>d. fmt_d \<lfloor>unrounded d\<rfloor>),
      strtol = (\<lambda>s. (0, s)),
      check_stream_specifier = (\<lambda>f i s. 1),
      get_by_name = (\<lambda>n. True),
      graph_alloc_ok = True,
      alloc_filter_ok = (\<lambda>g f n. True),
      init_str_rc = (\<lambda>g c a. 0),
      filter_pads = (\<lambda>f. ([], [])),
      opt_set_double_rc = (\<lambda>g c k v. 0),
      link_rc = (\<lambda>g l. 0),
      parse2 = (\<lambda>g d. (0, g, [], [])),
      graph_config_rc = (\<lambda>g. 0)\<rparr>"

definition codec0 :: AVCodecContext where
  "codec0 =
     \<lparr>codec_type = AVMEDIA_TYPE_VIDEO, width = 0, height = 0, pix_fmt = AV_PIX_FMT_NONE,
      sample_fmt = AV_SAMPLE_FMT_NONE, sample_rate = 0, channel_layout = 0, channels = 0,
      codec_sample_aspect_ratio = (0, 1)\<rparr>"

definition stream0 :: AVStream where
  "stream0 =
     \<lparr>st_index = 0, codec = codec0, time_base = (1, 25), st_sample_aspect_ratio = (0, 1),
      st_discard = 0\<rparr>"

definition encoder0 :: AVCodec where
  "encoder0 =
     \<lparr>pix_fmts = Some [0, 2, - 1], sample_fmts = Some [1, 3, - 1],
      supported_samplerates = Some [44100, 48000, 0], channel_layouts = None\<rparr>"

definition ost0 :: OutputStream where
  "ost0 =
     \<lparr>ost_file_index = 0, ost_index = 0, st = stream0, enc = Some encoder0,
      frame_rate = (0, 0), sws_flags = 4, avfilter = ''null'', resample_opts = [],
      ost_filter = None\<rparr>"

definition ist0 :: InputStream where
  "ist0 =
     \<lparr>ist_file_index = 0, ist_st = stream0, discard = 1, decoding_needed = 0,
      framerate = (0, 0), ist_filters = []\<rparr>"

definition state0 :: state where
  "state0 =
     \<lparr>input_streams = [ist0], output_streams = [ost0],
      input_files = [\<lparr>ctx_streams = [0], ist_index = 0\<rparr>],
      output_files = [\<lparr>recording_time = INT64_MAX, start_time = 0\<rparr>],
      filtergraphs = [], fg_heap = [], ifilter_heap = [], ofilter_heap = [],
      audio_sync_method = 0, audio_volume = 256, audio_drift_threshold = Double_const (1 / 8)\<rparr>"

definition bind_to :: "nat \<Rightarrow> nat \<Rightarrow> state \<Rightarrow> state" where
  "bind_to fg i s =
     s\<lparr>input_streams := (input_streams s)
          [i := (input_streams s ! i)
             \<lparr>discard := 0, decoding_needed := 1,
              ist_st := (ist_st (input_streams s ! i))\<lparr>st_discard := AVDISCARD_NONE\<rparr>,
              ist_filters := ist_filters (input_streams s ! i) @ [Some (length (ifilter_heap s))]\<rparr>],
        fg_heap := (fg_heap s)
          [fg := (fg_heap s ! fg)
             \<lparr>inputs := inputs (fg_heap s ! fg) @ [Some (length (ifilter_heap s))]\<rparr>],
        ifilter_heap := ifilter_heap s @
          [\<lparr>if_filter = None, if_ist = Some i, if_graph = Some fg, if_name = None\<rparr>]\<rparr>"

definition bound_cell :: "nat \<Rightarrow> nat \<Rightarrow> InputFilter" where
  "bound_cell fg i = \<lparr>if_filter = None, if_ist = Some i, if_graph = Some fg, if_name = None\<rparr>"

definition graph1 :: AVFilterGraph where
  "graph1 =
     \<lparr>filters =
        [\<lparr>filter_name = ''overlay'', inst_name = ''Parsed_overlay_0'', init_args = None,
          initialised = True, options = [],
          input_pads = [\<lparr>pad_name = ''main'', pad_type = AVMEDIA_TYPE_VIDEO\<rparr>,
                        \<lparr>pad_name = ''overlay'', pad_type = AVMEDIA_TYPE_VIDEO\<rparr>],
          output_pads = [\<lparr>pad_name = ''default'', pad_type = AVMEDIA_TYPE_VIDEO\<rparr>]\<rparr>],
      links = [], scale_sws_opts = None, resample_lavr_opts = None\<rparr>"

definition state1 :: state where
  "state1 =
     state0\<lparr>input_streams := [ist0\<lparr>discard := 0\<rparr>, ist0, ist0],
            fg_heap := [\<lparr>fg_index = 0, graph_desc = Some ''overlay'', graph = Some graph1,
                         inputs = [], outputs = []\<rparr>],
            filtergraphs := [Some 0]\<rparr>"

definition inp0 :: AVFilterInOut where
  "inp0 = \<lparr>io_name = None, filter_ctx = 0, pad_idx = 0\<rparr>"

definition inp1 :: AVFilterInOut where
  "inp1 = \<lparr>io_name = None, filter_ctx = 0, pad_idx = 1\<rparr>"

definition window :: "OutputFile \<Rightarrow> bool" where
  "window ofile = (recording_time ofile \<noteq> INT64_MAX \<or> start_time ofile \<noteq> 0)"

text \<open>The parameters of the trim node: \<open>duration\<close> for a finite recording time, \<open>start\<close>
  for a start time other than zero, each the \<^verbatim>\<open>double\<close> \<^verbatim>\<open>(double)t / 1e6\<close>.\<close>

definition duration_option :: "OutputFile \<Rightarrow> (string \<times> double) list" where
  "duration_option ofile =
     (if recording_time ofile \<noteq> INT64_MAX then [(''duration'', usec (recording_time ofile))] else [])"

definition start_option :: "OutputFile \<Rightarrow> (string \<times> double) list" where
  "start_option ofile =
     (if start_time ofile \<noteq> 0 then [(''start'', usec (start_time ofile))] else [])"

definition trim_options :: "OutputFile \<Rightarrow> (string \<times> double) list" where
  "trim_options ofile = duration_option ofile @ start_option ofile"

definition trim_name :: "OutputStream \<Rightarrow> string" where
  "trim_name ost = (if codec_type (codec (st ost)) = AVMEDIA_TYPE_VIDEO then ''trim'' else ''atrim'')"

text \<open>The trim node while it is built: with the parameters set so far, initialised or not.
  \<open>trim_node\<close> is the finished node.\<close>

definition trim_stage ::
  "env \<Rightarrow> OutputStream \<Rightarrow> (string \<times> double) list \<Rightarrow> bool \<Rightarrow> AVFilterContext" where
  "trim_stage e ost opts ini =
     \<lparr>filter_name = trim_name ost,
      inst_name = snprintf 128 (trim_name ost @ '' for output stream '' @ stream_label ost),
      init_args = None, initialised = ini, options = opts,
      input_pads = fst (filter_pads e (trim_name ost)),
      output_pads = snd (filter_pads e (trim_name ost))\<rparr>"

definition trim_node :: "env \<Rightarrow> OutputStream \<Rightarrow> OutputFile \<Rightarrow> AVFilterContext" where
  "trim_node e ost ofile = trim_stage e ost (trim_options ofile) True"

definition with_node :: "AVFilterGraph \<Rightarrow> AVFilterContext \<Rightarrow> AVFilterGraph" where
  "with_node g n = g\<lparr>filters := filters g @ [n]\<rparr>"

text \<open>The return values of the engine calls \<open>insert_trim\<close> makes on its node, in the order
  of the calls, each on the graph the calls before it leave when they succeed: the
  parameters that apply, the initialisation, the link from the cursor.\<close>

definition option_calls :: "env \<Rightarrow> OutputStream \<Rightarrow> OutputFile \<Rightarrow> AVFilterGraph \<Rightarrow> int list" where
  "option_calls e ost ofile g =
     map (\<lambda>(k, v). opt_set_double_rc e (with_node g (trim_stage e ost [] False))
                     (length (filters g)) k v) (duration_option ofile) @
     map (\<lambda>(k, v). opt_set_double_rc e (with_node g (trim_stage e ost (duration_option ofile) False))
                     (length (filters g)) k v) (start_option ofile)"

definition trim_calls :: "env \<Rightarrow> OutputStream \<Rightarrow> OutputFile \<Rightarrow> cursor \<Rightarrow> int list" where
  "trim_calls e ost ofile cur =
     (case cur of (g, lf, pad) \<Rightarrow>
      option_calls e ost ofile g @
      [init_str_rc e (with_node g (trim_stage e ost (trim_options ofile) False))
         (length (filters g)) None,
       link_rc e (with_node g (trim_stage e ost (trim_options ofile) True))
         (lf, pad, length (filters g), 0)])"

text \<open>The code \<open>insert_trim\<close> is to return for a file with a recording window: that of the
  first step that fails, 0 when none does.\<close>

definition trim_code :: "env \<Rightarrow> OutputStream \<Rightarrow> OutputFile \<Rightarrow> cursor \<Rightarrow> int" where
  "trim_code e ost ofile cur =
     (if \<not> get_by_name e (trim_name ost) then AVERROR_FILTER_NOT_FOUND
      else if \<not> alloc_filter_ok e (fst cur) (trim_name ost)
                 (snprintf 128 (trim_name ost @ '' for output stream '' @ stream_label ost))
      then AVERROR_ENOMEM
      else case filter (\<lambda>r. r < 0) (trim_calls e ost ofile cur) of [] \<Rightarrow> 0 | r # rs \<Rightarrow> r)"

text \<open>Streams with a fixed pixel format: \<open>rgb24\<close>, and a value the lookup has no name for.\<close>

definition ost_rgb24 :: OutputStream where
  "ost_rgb24 = ost0\<lparr>st := stream0\<lparr>codec := codec0\<lparr>pix_fmt := 2\<rparr>\<rparr>\<rparr>"

definition ost_pix77 :: OutputStream where
  "ost_pix77 = ost0\<lparr>st := stream0\<lparr>codec := codec0\<lparr>pix_fmt := 77\<rparr>\<rparr>\<rparr>"


fun follows :: "string list \<Rightarrow> nat \<times> int \<Rightarrow> AVFilterLink list \<Rightarrow> string list \<Rightarrow> bool" where
  "follows nm cur [] ts = (ts = [])"
| "follows nm cur (l # ls) ts =
     (case ts of
        [] \<Rightarrow> False
      | t # ts' \<Rightarrow>
          (fst l, fst (snd l)) = cur \<and> snd (snd (snd l)) = 0
          \<and> fst (snd (snd l)) < length nm \<and> nm ! fst (snd (snd l)) = t
          \<and> follows nm (fst (snd (snd l)), 0) ls ts')"

definition chain_end :: "nat \<times> int \<Rightarrow> AVFilterLink list \<Rightarrow> nat \<times> int" where
  "chain_end cur ls = (if ls = [] then cur else (fst (snd (snd (last ls))), 0))"

definition grows :: "AVFilterContext list \<Rightarrow> cursor \<Rightarrow> cursor \<Rightarrow> bool" where
  "grows ns c c' =
     (case c of (g, lf, pad) \<Rightarrow> case c' of (g', lf', pad') \<Rightarrow>
        filters g' = filters g @ ns
        \<and> (\<exists>ls. links g' = links g @ ls
              \<and> follows (map filter_name (filters g')) (lf, pad) ls (map filter_name ns)
              \<and> (lf', pad') = chain_end (lf, pad) ls))"

text \<open>The node a successful creation adds.\<close>

definition created :: "env \<Rightarrow> string \<Rightarrow> string \<Rightarrow> string option \<Rightarrow> AVFilterContext" where
  "created e ftype nm args =
     \<lparr>filter_name = ftype, inst_name = nm, init_args = args, initialised = True, options = [],
      input_pads = fst (filter_pads e ftype), output_pads = snd (filter_pads e ftype)\<rparr>"

definition file_unbounded :: OutputFile where
  "file_unbounded = \<lparr>recording_time = INT64_MAX, start_time = 0\<rparr>"

definition ost_scaled :: OutputStream where
  "ost_scaled = ost0\<lparr>st := stream0\<lparr>codec := codec0\<lparr>width := 640, height := 480\<rparr>\<rparr>\<rparr>"

definition out0 :: AVFilterInOut where
  "out0 = \<lparr>io_name = None, filter_ctx = 0, pad_idx = 0\<rparr>"

definition env_without :: "string \<Rightarrow> env" where
  "env_without t = env0\<lparr>get_by_name := (\<lambda>n. n \<noteq> t)\<rparr>"

definition obliging :: "env \<Rightarrow> bool" where
  "obliging e =
     (alloc_ok e \<and> 0 \<le> dyn_buf_rc e \<and> graph_alloc_ok e
      \<and> (\<forall>n. get_by_name e n) \<and> (\<forall>g f n. alloc_filter_ok e g f n)
      \<and> (\<forall>g c a. 0 \<le> init_str_rc e g c a) \<and> (\<forall>g c k v. 0 \<le> opt_set_double_rc e g c k v)
      \<and> (\<forall>g l. 0 \<le> link_rc e g l) \<and> (\<forall>g. 0 \<le> graph_config_rc e g))"

definition valid_cursor :: "cursor \<Rightarrow> bool" where
  "valid_cursor c = (case c of (g, lf, pad) \<Rightarrow> lf < length (filters g))"

text \<open>The state \<open>init_simple_filtergraph\<close> makes of \<open>state0\<close> for its streams 0 and 0: one
  simple graph, not yet configured.\<close>

definition state_simple :: state where
  "state_simple =
     state0\<lparr>output_streams := [ost0\<lparr>ost_filter := Some 0\<rparr>],
            input_streams := [ist0\<lparr>ist_filters := [Some 0]\<rparr>],
            fg_heap := [\<lparr>fg_index = 0, graph_desc = None, graph = None,
                         inputs = [Some 0], outputs = [Some 0]\<rparr>],
            ifilter_heap := [\<lparr>if_filter = None, if_ist = Some 0, if_graph = Some 0, if_name = None\<rparr>],
            ofilter_heap := [\<lparr>of_filter = None, of_ost = Some 0, of_graph = Some 0,
                              of_name = None, out_tmp = None\<rparr>],
            filtergraphs := [Some 0]\<rparr>"

text \<open>The graph a fresh simple graph is parsed into: \<^verbatim>\<open>avfilter_graph_alloc\<close> with the
  options of the output stream.\<close>

definition graph_simple :: "env \<Rightarrow> OutputStream \<Rightarrow> AVFilterGraph" where
  "graph_simple e ost =
     simple_graph_options e ost
       \<lparr>filters = [], links = [], scale_sws_opts = None, resample_lavr_opts = None\<rparr>"

text \<open>What a parser makes of the description \<open>null\<close>: one node that passes video through,
  with the endpoints \<open>inp0\<close> and \<open>out0\<close> on it. \<open>env_no_scale\<close> has this parser and an engine
  without the \<open>scale\<close> node type; \<open>state_scaled\<close> is \<open>state_simple\<close> with an output stream
  that asks for a frame size.\<close>

definition parsed_null :: "AVFilterGraph \<Rightarrow> AVFilterGraph" where
  "parsed_null g =
     g\<lparr>filters :=
        [\<lparr>filter_name = ''null'', inst_name = ''Parsed_null_0'', init_args = None,
          initialised = True, options = [],
          input_pads = [\<lparr>pad_name = ''default'', pad_type = AVMEDIA_TYPE_VIDEO\<rparr>],
          output_pads = [\<lparr>pad_name = ''default'', pad_type = AVMEDIA_TYPE_VIDEO\<rparr>]\<rparr>]\<rparr>"

definition env_no_scale :: env where
  "env_no_scale =
     env0\<lparr>get_by_name := (\<lambda>n. n \<noteq> ''scale''),
          parse2 := (\<lambda>g d. (0, parsed_null g, [inp0], [out0]))\<rparr>"

definition state_scaled :: state where
  "state_scaled = state_simple\<lparr>output_streams := [ost_scaled\<lparr>ost_filter := Some 0\<rparr>]\<rparr>"

section \<open>Properties\<close>

subsection \<open>The format chooser\<close>

lemma print_names_terminated:
  "none \<notin> set vs \<Longrightarrow> map g vs = map Some ns \<Longrightarrow>
   print_names none g (vs @ none # rest) buf = Inr (buf @ concat (map (\<lambda>n. n @ ''|'') ns))"
proof (induction vs arbitrary: buf ns)
  case Nil
  then show ?case by simp
next
  case (Cons v vs)
  from Cons.prems(2) obtain n ns' where ns: "ns = n # ns'" and n: "g v = Some n"
    and r: "map g vs = map Some ns'"
    by (cases ns) auto
  from Cons.prems(1) have "v \<noteq> none" "none \<notin> set vs" by auto
  with Cons.IH [OF this(2) r] n ns show ?case by simp
qed

lemma print_names_unterminated:
  "none \<notin> set arr \<Longrightarrow> print_names none g arr buf = Inl Read_Out_Of_Bounds"
  by (induction arr arbitrary: buf) (auto split: option.splits)

lemma split_at_sentinel:
  "none \<in> set arr \<Longrightarrow>
   arr = supported_values none arr @ none # drop (Suc (length (supported_values none arr))) arr"
  unfolding supported_values_def
  by (induction arr) auto

lemma sentinel_not_supported: "none \<notin> set (supported_values none arr)"
  unfolding supported_values_def by (auto dest: set_takeWhileD)

lemma print_names_supported:
  assumes "none \<in> set arr" and "map g (supported_values none arr) = map Some ns"
  shows "print_names none g arr buf = Inr (buf @ concat (map (\<lambda>n. n @ ''|'') ns))"
proof -
  let ?vs = "supported_values none arr"
  have "print_names none g (?vs @ none # drop (Suc (length ?vs)) arr) buf =
        Inr (buf @ concat (map (\<lambda>n. n @ ''|'') ns))"
    by (rule print_names_terminated) (rule sentinel_not_supported, rule assms(2))
  with split_at_sentinel [OF assms(1)] show ?thesis by simp
qed

lemma printed_is_joined:
  "ns \<noteq> [] \<Longrightarrow> concat (map (\<lambda>n. n @ ''|'') ns) = join_names ns @ ''|''"
  by (induction ns rule: induct_list012) auto

lemma c_str_no_zero: "CHR 0x00 \<notin> set s \<Longrightarrow> c_str (s @ CHR 0x00 # t) = s"
  unfolding c_str_def by (induction s) auto

lemma cut_last_separator:
  "CHR 0x00 \<notin> set s \<Longrightarrow> c_str ((s @ ''|'')[length s := CHR 0x00]) = s"
  using c_str_no_zero [of s "[]"] by (simp add: list_update_append)

lemma join_names_no_zero:
  "\<forall>n \<in> set ns. CHR 0x00 \<notin> set n \<Longrightarrow> CHR 0x00 \<notin> set (join_names ns)"
  by (induction ns rule: join_names.induct) auto

lemma fields_nonempty: "fields sep cs \<noteq> []"
  by (induction cs) (auto split: list.splits)

lemma fields_no_sep: "sep \<notin> set n \<Longrightarrow> fields sep (n @ sep # cs) = n # fields sep cs"
  by (induction n) (auto split: list.splits simp: fields_nonempty)

lemma fields_single: "sep \<notin> set n \<Longrightarrow> fields sep n = [n]"
  by (induction n) (auto split: list.splits)

lemma fields_join_names:
  "ns \<noteq> [] \<Longrightarrow> \<forall>n \<in> set ns. CHR ''|'' \<notin> set n \<Longrightarrow> fields CHR ''|'' (join_names ns) = ns"
  by (induction ns rule: join_names.induct) (auto simp: fields_single fields_no_sep)

lemma choose_format_list:
  assumes "var = none" "lst = Some arr" "none \<in> set arr"
    and "map g (supported_values none arr) = map Some ns" and "ns \<noteq> []"
    and "0 \<le> dyn_buf_rc e" and "\<forall>n \<in> set ns. CHR 0x00 \<notin> set n"
  shows "choose_format e none g var lst = Inr (Some (join_names ns))"
proof -
  let ?j = "join_names ns"
  have z: "CHR 0x00 \<notin> set ?j"
    using assms(7) by (rule join_names_no_zero)
  have p: "print_names none g arr [] = Inr (?j @ ''|'')"
    using print_names_supported [OF assms(3,4), of "[]"] printed_is_joined [OF assms(5)]
    by simp
  show ?thesis
    using assms(1,2,6) p cut_last_separator [OF z]
    by (simp add: choose_format_def Let_def)
qed

lemma choose_for_unfold:
  "choose_for e a ost =
   choose_format e (attr_none a) (attr_name e a) (attr_value a ost) (attr_list a ost)"
  by (cases a)
    (simp_all add: choose_for_def attr_none_def attr_name_def attr_value_def attr_list_def
      choose_pix_fmts_def choose_sample_fmts_def choose_sample_rates_def
      choose_channel_layouts_def)

lemma printed_nonempty: "ns \<noteq> [] \<Longrightarrow> concat (map (\<lambda>n. n @ ''|'') ns) \<noteq> []"
  by (cases ns) auto

lemma named_values: "\<forall>v \<in> set vs. g v \<noteq> None \<Longrightarrow> \<exists>ns. map g vs = map Some ns"
  by (rule exI [of _ "map (\<lambda>v. the (g v)) vs"]) auto

lemma choose_format_returns_nonempty:
  assumes "none \<in> set arr" and "choose_format e none g none (Some arr) = Inr r"
  shows "supported_values none arr \<noteq> []"
proof
  assume "supported_values none arr = []"
  then have "map g (supported_values none arr) = map Some []" by simp
  from print_names_supported [OF assms(1) this, of "[]"] assms(2) show False
    by (simp add: choose_format_def split: if_splits)
qed

lemma choose_format_returns_named:
  assumes "none \<in> set arr" and "0 \<le> dyn_buf_rc e" and "supported_values none arr \<noteq> []"
    and "\<forall>v \<in> set (supported_values none arr). g v \<noteq> None"
  shows "\<exists>r. choose_format e none g none (Some arr) = Inr r"
proof -
  from named_values [OF assms(4)] obtain ns where
    ns: "map g (supported_values none arr) = map Some ns" ..
  with assms(3) have "ns \<noteq> []" by auto
  then have "concat (map (\<lambda>n. n @ ''|'') ns) \<noteq> []" by (rule printed_nonempty)
  then show ?thesis
    using assms(2) print_names_supported [OF assms(1) ns, of "[]"]
    by (simp add: choose_format_def Let_def)
qed

text \<open>
  Claim C3. When the attribute is unset and the encoder's array declares the values \<open>vs\<close>,
  \<open>N = length vs > 0\<close> of them before the sentinel, whose canonical names are \<open>ns\<close>, the
  chooser returns the \<open>N\<close> names joined by \<open>|\<close>: cut at the separators the text gives back
  exactly those names, so none is missing, none is added and no separator trails. The
  dynamic buffer is taken to open (otherwise the process exits).
\<close>

theorem choose_lists_supported_names:
  assumes "attr_value a ost = attr_none a"
    and "attr_list a ost = Some arr" and "attr_none a \<in> set arr"
    and "vs = supported_values (attr_none a) arr" and "vs \<noteq> []"
    and "0 \<le> dyn_buf_rc e"
    and "map (attr_name e a) vs = map Some ns" and "\<forall>n \<in> set ns. canonical_name n"
  shows "\<exists>s. choose_for e a ost = Inr (Some s) \<and> s = join_names ns
           \<and> fields CHR ''|'' s = ns
           \<and> length (fields CHR ''|'' s) = length vs"
proof -
  have len: "length ns = length vs"
    using arg_cong [OF assms(7), of length] by simp
  with assms(5) have ne: "ns \<noteq> []" by auto
  have nz: "\<forall>n \<in> set ns. CHR 0x00 \<notin> set n"
    using assms(8) by (simp add: canonical_name_def)
  have r: "choose_for e a ost = Inr (Some (join_names ns))"
    unfolding choose_for_unfold
    by (rule choose_format_list [OF assms(1,2,3) assms(7) [unfolded assms(4)] ne assms(6) nz])
  have "fields CHR ''|'' (join_names ns) = ns"
    using ne assms(8) by (intro fields_join_names) (auto simp: canonical_name_def)
  with r len show ?thesis by simp
qed

theorem choose_lists_supported_names_witness:
  "choose_for env0 Sample_Rate ost0 = Inr (Some ''44100|48000'')
   \<and> fields CHR ''|'' ''44100|48000'' = [''44100'', ''48000'']"
proof -
  have v: "attr_value Sample_Rate ost0 = attr_none Sample_Rate"
    by (simp add: attr_value_def attr_none_def ost0_def stream0_def codec0_def)
  have l: "attr_list Sample_Rate ost0 = Some [44100, 48000, 0]"
    by (simp add: attr_list_def enc_list_def ost0_def encoder0_def)
  have t: "attr_none Sample_Rate \<in> set [44100, 48000, 0::int]"
    by (simp add: attr_none_def)
  have s: "[44100, 48000] = supported_values (attr_none Sample_Rate) [44100, 48000, 0::int]"
    by (simp add: attr_none_def supported_values_def)
  have n: "[44100, 48000::int] \<noteq> []" by simp
  have d: "0 \<le> dyn_buf_rc env0" by (simp add: env0_def)
  have m: "map (attr_name env0 Sample_Rate) [44100, 48000] = map Some [''44100'', ''48000'']"
    by (simp add: attr_name_def env0_def fmt_d_def dec_nat.simps digit_char_def)
  have c: "\<forall>n \<in> set [''44100'', ''48000'']. canonical_name n"
    by (simp add: canonical_name_def)
  show ?thesis
    using choose_lists_supported_names [OF v l t s n d m c]
    by simp
qed

text \<open>
  Claim C4 (as amended). When the codec's field differs from the sentinel, the chooser
  returns a copy of the name of that value, whatever encoder (and list) the stream has,
  provided the lookup yields a name and \<^verbatim>\<open>av_strdup\<close> gets the memory for the copy; when
  there is no name for the value or the copy cannot be allocated, it returns the null
  pointer. When the field is unset and no list is declared, it returns the null pointer.
\<close>

theorem choose_fixed_or_unconstrained:
  "(attr_value a ost \<noteq> attr_none a \<and> attr_name e a (attr_value a ost) = Some n \<and> strdup_ok e n \<longrightarrow>
      (\<forall>c. choose_for e a (ost\<lparr>enc := c\<rparr>) = Inr (Some n)))
   \<and> (attr_value a ost \<noteq> attr_none a
        \<and> (\<forall>m. attr_name e a (attr_value a ost) = Some m \<longrightarrow> \<not> strdup_ok e m) \<longrightarrow>
      (\<forall>c. choose_for e a (ost\<lparr>enc := c\<rparr>) = Inr None))
   \<and> (attr_value a ost = attr_none a \<and> attr_list a ost = None \<longrightarrow>
      choose_for e a ost = Inr None)"
proof -
  have "attr_value a (ost\<lparr>enc := c\<rparr>) = attr_value a ost" for c
    by (cases a) (simp_all add: attr_value_def)
  then show ?thesis
    by (auto simp add: choose_for_unfold choose_format_def av_strdup_def split: option.splits)
qed

theorem choose_fixed_or_unconstrained_witness:
  "choose_for env0 Pix_Fmt (ost_rgb24\<lparr>enc := None\<rparr>) = Inr (Some ''rgb24'')
   \<and> choose_for env0 Pix_Fmt (ost_rgb24\<lparr>enc := Some encoder0\<rparr>) = Inr (Some ''rgb24'')
   \<and> choose_for env0 Pix_Fmt (ost_pix77\<lparr>enc := Some encoder0\<rparr>) = Inr None
   \<and> choose_for env0 Channel_Layout ost0 = Inr None"
proof -
  have f: "attr_value Pix_Fmt ost_rgb24 \<noteq> attr_none Pix_Fmt
           \<and> attr_name env0 Pix_Fmt (attr_value Pix_Fmt ost_rgb24) = Some ''rgb24''
           \<and> strdup_ok env0 ''rgb24''"
    by (simp add: attr_value_def attr_none_def attr_name_def AV_PIX_FMT_NONE_def ost_rgb24_def
        env0_def)
  have g: "attr_value Pix_Fmt ost_pix77 \<noteq> attr_none Pix_Fmt
           \<and> (\<forall>m. attr_name env0 Pix_Fmt (attr_value Pix_Fmt ost_pix77) = Some m
                  \<longrightarrow> \<not> strdup_ok env0 m)"
    by (simp add: attr_value_def attr_none_def attr_name_def AV_PIX_FMT_NONE_def ost_pix77_def
        env0_def)
  have u: "attr_value Channel_Layout ost0 = attr_none Channel_Layout
           \<and> attr_list Channel_Layout ost0 = None"
    by (simp add: attr_value_def attr_none_def attr_list_def enc_list_def ost0_def stream0_def
        codec0_def encoder0_def)
  note t1 = choose_fixed_or_unconstrained [of Pix_Fmt ost_rgb24 env0 "''rgb24''", THEN conjunct1,
      rule_format, OF f]
  note t2 = choose_fixed_or_unconstrained [of Pix_Fmt ost_pix77 env0, THEN conjunct2,
      THEN conjunct1, rule_format, OF g]
  note t3 = choose_fixed_or_unconstrained [of Channel_Layout ost0 env0, THEN conjunct2,
      THEN conjunct2, rule_format, OF u]
  show ?thesis
    by (intro conjI) (rule t1, rule t1, rule t2, rule t3)
qed

text \<open>
  The claim as first stated fails: the pixel format is fixed to the value 2, whose name is
  \<open>rgb24\<close>, and \<^verbatim>\<open>av_strdup\<close> is refused its memory; or it is fixed to a value that has no
  name. Both times the chooser returns the null pointer and not a name.
\<close>

theorem choose_fixed_counterexample:
  "attr_value Pix_Fmt ost_rgb24 \<noteq> attr_none Pix_Fmt
   \<and> attr_name env0 Pix_Fmt (attr_value Pix_Fmt ost_rgb24) = Some ''rgb24''
   \<and> choose_for (env0\<lparr>strdup_ok := (\<lambda>t. False)\<rparr>) Pix_Fmt ost_rgb24 = Inr None
   \<and> attr_value Pix_Fmt ost_pix77 \<noteq> attr_none Pix_Fmt
   \<and> choose_for env0 Pix_Fmt ost_pix77 = Inr None"
  by (simp add: choose_for_def choose_pix_fmts_def choose_format_def av_strdup_def
      attr_value_def attr_none_def attr_name_def AV_PIX_FMT_NONE_def ost_rgb24_def ost_pix77_def
      ost0_def stream0_def codec0_def env0_def)

text \<open>
  Claim C9. When the attribute is unset and the declared array starts with the sentinel,
  the loop prints nothing, the length is 0 and the terminating zero is stored at index
  \<open>- 1\<close>, outside the buffer. For a terminated array the call returns only when the array
  declares at least one value, and it does return when it declares one and each declared
  value has a name.
\<close>

theorem choose_empty_list_unsafe:
  assumes "attr_value a ost = attr_none a"
    and "attr_list a ost = Some arr" and "attr_none a \<in> set arr"
    and "0 \<le> dyn_buf_rc e"
  shows "(hd arr = attr_none a \<longrightarrow>
            print_names (attr_none a) (attr_name e a) arr [] = Inr []
            \<and> choose_for e a ost = Inl (Write_Out_Of_Bounds (- 1)))
         \<and> ((\<exists>r. choose_for e a ost = Inr r) \<longrightarrow> supported_values (attr_none a) arr \<noteq> [])
         \<and> (supported_values (attr_none a) arr \<noteq> []
              \<and> (\<forall>v \<in> set (supported_values (attr_none a) arr). attr_name e a v \<noteq> None) \<longrightarrow>
            (\<exists>r. choose_for e a ost = Inr r))"
proof -
  have e: "hd arr = attr_none a \<Longrightarrow> supported_values (attr_none a) arr = []"
    using assms(3) by (cases arr) (auto simp: supported_values_def)
  have p: "hd arr = attr_none a \<Longrightarrow>
      print_names (attr_none a) (attr_name e a) arr [] = Inr []"
    using print_names_supported [OF assms(3), of "attr_name e a" "[]" "[]"] e by simp
  have w: "hd arr = attr_none a \<Longrightarrow>
      choose_for e a ost = Inl (Write_Out_Of_Bounds (- 1))"
    using p assms(1,2,4) by (simp add: choose_for_unfold choose_format_def)
  have r: "(\<exists>r. choose_for e a ost = Inr r) \<Longrightarrow> supported_values (attr_none a) arr \<noteq> []"
    unfolding choose_for_unfold assms(1,2)
    by (elim exE) (rule choose_format_returns_nonempty [OF assms(3)])
  have n: "supported_values (attr_none a) arr \<noteq> [] \<Longrightarrow>
      \<forall>v \<in> set (supported_values (attr_none a) arr). attr_name e a v \<noteq> None \<Longrightarrow>
      \<exists>r. choose_for e a ost = Inr r"
    unfolding choose_for_unfold assms(1,2)
    by (rule choose_format_returns_named [OF assms(3,4)])
  show ?thesis
    using p w r n by (intro conjI impI) simp_all
qed

theorem choose_empty_list_unsafe_witness:
  "choose_for env0 Sample_Fmt (ost0\<lparr>enc := Some (encoder0\<lparr>sample_fmts := Some [- 1]\<rparr>)\<rparr>)
     = Inl (Write_Out_Of_Bounds (- 1))
   \<and> (\<exists>r. choose_for env0 Sample_Fmt ost0 = Inr r)"
proof -
  let ?o = "ost0\<lparr>enc := Some (encoder0\<lparr>sample_fmts := Some [- 1]\<rparr>)\<rparr>"
  have v: "attr_value Sample_Fmt ?o = attr_none Sample_Fmt"
    "attr_value Sample_Fmt ost0 = attr_none Sample_Fmt"
    by (simp_all add: attr_value_def attr_none_def ost0_def stream0_def codec0_def)
  have l: "attr_list Sample_Fmt ?o = Some [- 1]" "attr_list Sample_Fmt ost0 = Some [1, 3, - 1]"
    by (simp_all add: attr_list_def enc_list_def ost0_def encoder0_def)
  have t: "attr_none Sample_Fmt \<in> set [- 1]" "attr_none Sample_Fmt \<in> set [1, 3, - 1]"
    by (simp_all add: attr_none_def AV_SAMPLE_FMT_NONE_def)
  have d: "0 \<le> dyn_buf_rc env0" by (simp add: env0_def)
  have s: "supported_values (attr_none Sample_Fmt) [1, 3, - 1] = [1, 3]"
    by (simp add: attr_none_def AV_SAMPLE_FMT_NONE_def supported_values_def)
  have m: "\<forall>v \<in> set [1, 3]. attr_name env0 Sample_Fmt v \<noteq> None"
    by (simp add: attr_name_def env0_def)
  show ?thesis
    using choose_empty_list_unsafe [OF v(1) l(1) t(1) d]
      choose_empty_list_unsafe [OF v(2) l(2) t(2) d] s m
    by (simp add: attr_none_def AV_SAMPLE_FMT_NONE_def)
qed

subsection \<open>Creating a simple filter graph\<close>

lemma seq_Inr [simp]: "seq (Inr x) k = k x" by (simp add: seq_def)
lemma seq_Inl [simp]: "seq (Inl f) k = Inl f" by (simp add: seq_def)

lemma deref_valid: "a < length heap \<Longrightarrow> deref heap (Some a) = Inr (heap ! a)"
  by (simp add: deref_def)

lemma store_last: "store (arr @ [x]) (int (length (arr @ [x])) - 1) v = Inr (arr @ [v])"
  by (simp add: store_def)

lemma store_first: "store [x] 0 v = Inr [v]"
  by (simp add: store_def)

lemma init_simple_filtergraph_result:
  assumes "alloc_ok e" "ist < length (input_streams s)" "ost < length (output_streams s)"
  shows "init_simple_filtergraph e ist ost s =
    Inr (length (fg_heap s),
      s\<lparr>fg_heap := fg_heap s @
           [\<lparr>fg_index = int (length (filtergraphs s)), graph_desc = None, graph = None,
             inputs = [Some (length (ifilter_heap s))],
             outputs = [Some (length (ofilter_heap s))]\<rparr>],
        ofilter_heap := ofilter_heap s @
           [\<lparr>of_filter = None, of_ost = Some ost, of_graph = Some (length (fg_heap s)),
             of_name = None, out_tmp = None\<rparr>],
        output_streams := (output_streams s)
           [ost := (output_streams s ! ost)\<lparr>ost_filter := Some (length (ofilter_heap s))\<rparr>],
        ifilter_heap := ifilter_heap s @
           [\<lparr>if_filter = None, if_ist = Some ist, if_graph = Some (length (fg_heap s)),
             if_name = None\<rparr>],
        input_streams := (input_streams s)
           [ist := (input_streams s ! ist)
              \<lparr>ist_filters := ist_filters (input_streams s ! ist) @ [Some (length (ifilter_heap s))]\<rparr>],
        filtergraphs := filtergraphs s @ [Some (length (fg_heap s))]\<rparr>)"
  using assms
  apply (simp add: init_simple_filtergraph_def new_fg_def new_ifilter_def new_ofilter_def
      GROW_ARRAY_def upd_fg_def upd_ifilter_def upd_ofilter_def upd_ist_def upd_ost_def
      Let_def deref_valid store_first store_last del: length_append append_assoc)
  done


lemma init_simple_filtergraph_no_memory:
  "\<not> alloc_ok e \<Longrightarrow> init_simple_filtergraph e ist ost s = Inl (Exit 1)"
  by (simp add: init_simple_filtergraph_def new_fg_def)

lemma init_simple_filtergraph_bad_ost:
  "alloc_ok e \<Longrightarrow> \<not> ost < length (output_streams s) \<Longrightarrow>
   init_simple_filtergraph e ist ost s = Inl Read_Out_Of_Bounds"
  by (simp add: init_simple_filtergraph_def new_fg_def new_ofilter_def
      GROW_ARRAY_def upd_fg_def upd_ofilter_def Let_def deref_def store_first
      del: length_append append_assoc)

lemma init_simple_filtergraph_bad_ist:
  "alloc_ok e \<Longrightarrow> ost < length (output_streams s) \<Longrightarrow> \<not> ist < length (input_streams s) \<Longrightarrow>
   init_simple_filtergraph e ist ost s = Inl Read_Out_Of_Bounds"
  by (simp add: init_simple_filtergraph_def new_fg_def new_ifilter_def new_ofilter_def
      GROW_ARRAY_def upd_fg_def upd_ifilter_def upd_ofilter_def upd_ost_def Let_def deref_def
      store_first del: length_append append_assoc)

lemma init_simple_filtergraph_returns_iff:
  "(\<exists>r. init_simple_filtergraph e ist ost s = Inr r) \<longleftrightarrow>
   alloc_ok e \<and> ist < length (input_streams s) \<and> ost < length (output_streams s)"
  using init_simple_filtergraph_no_memory [of e ist ost s]
    init_simple_filtergraph_bad_ost [of e ost s ist]
    init_simple_filtergraph_bad_ist [of e ost s ist]
    init_simple_filtergraph_result [of e ist s ost]
  by (cases "alloc_ok e"; cases "ost < length (output_streams s)";
      cases "ist < length (input_streams s)") simp_all

text \<open>
  Claim C10. \<open>init_simple_filtergraph\<close> returns whenever memory is granted and both streams
  exist, and the graph it returns has exactly one input filter, bound to the given input
  stream, and exactly one output filter, bound to the given output stream. Both point
  back to the graph; the output stream's \<open>filter\<close> is the new output filter; the new input
  filter is appended to the input stream's \<open>filters\<close>; the graph is appended to the
  registry, and its \<open>index\<close> is its position there.
\<close>

theorem init_simple_filtergraph_links:
  "(alloc_ok e \<and> ist < length (input_streams s) \<and> ost < length (output_streams s) \<longrightarrow>
      (\<exists>fg s'. init_simple_filtergraph e ist ost s = Inr (fg, s')))
   \<and> (\<forall>fg s'. init_simple_filtergraph e ist ost s = Inr (fg, s') \<longrightarrow>
        (let ifl = length (ifilter_heap s); ofl = length (ofilter_heap s);
             G = fg_heap s' ! fg
         in fg = length (fg_heap s) \<and> fg < length (fg_heap s')
            \<and> inputs G = [Some ifl] \<and> outputs G = [Some ofl]
            \<and> ifl < length (ifilter_heap s') \<and> ofl < length (ofilter_heap s')
            \<and> if_ist (ifilter_heap s' ! ifl) = Some ist
            \<and> if_graph (ifilter_heap s' ! ifl) = Some fg
            \<and> of_ost (ofilter_heap s' ! ofl) = Some ost
            \<and> of_graph (ofilter_heap s' ! ofl) = Some fg
            \<and> ost_filter (output_streams s' ! ost) = Some ofl
            \<and> ist_filters (input_streams s' ! ist)
                = ist_filters (input_streams s ! ist) @ [Some ifl]
            \<and> filtergraphs s' = filtergraphs s @ [Some fg]
            \<and> load (filtergraphs s') (fg_index G) = Inr (Some fg)))"
proof (intro conjI allI impI)
  assume "alloc_ok e \<and> ist < length (input_streams s) \<and> ost < length (output_streams s)"
  then show "\<exists>fg s'. init_simple_filtergraph e ist ost s = Inr (fg, s')"
    by (simp add: init_simple_filtergraph_result)
next
  fix fg s'
  assume r: "init_simple_filtergraph e ist ost s = Inr (fg, s')"
  then have ok: "alloc_ok e" "ist < length (input_streams s)" "ost < length (output_streams s)"
    using init_simple_filtergraph_returns_iff [of e ist ost s] by auto
  from r show "let ifl = length (ifilter_heap s); ofl = length (ofilter_heap s);
             G = fg_heap s' ! fg
         in fg = length (fg_heap s) \<and> fg < length (fg_heap s')
            \<and> inputs G = [Some ifl] \<and> outputs G = [Some ofl]
            \<and> ifl < length (ifilter_heap s') \<and> ofl < length (ofilter_heap s')
            \<and> if_ist (ifilter_heap s' ! ifl) = Some ist
            \<and> if_graph (ifilter_heap s' ! ifl) = Some fg
            \<and> of_ost (ofilter_heap s' ! ofl) = Some ost
            \<and> of_graph (ofilter_heap s' ! ofl) = Some fg
            \<and> ost_filter (output_streams s' ! ost) = Some ofl
            \<and> ist_filters (input_streams s' ! ist)
                = ist_filters (input_streams s ! ist) @ [Some ifl]
            \<and> filtergraphs s' = filtergraphs s @ [Some fg]
            \<and> load (filtergraphs s') (fg_index G) = Inr (Some fg)"
    unfolding init_simple_filtergraph_result [OF ok]
    using ok by (auto simp: Let_def load_def)
qed


theorem init_simple_filtergraph_links_witness:
  "\<exists>s'. init_simple_filtergraph env0 0 0 state0 = Inr (0, s')
      \<and> inputs (fg_heap s' ! 0) = [Some 0] \<and> outputs (fg_heap s' ! 0) = [Some 0]
      \<and> if_ist (ifilter_heap s' ! 0) = Some 0 \<and> ost_filter (output_streams s' ! 0) = Some 0
      \<and> filtergraphs s' = [Some 0] \<and> fg_index (fg_heap s' ! 0) = 0"
proof -
  have h: "alloc_ok env0 \<and> 0 < length (input_streams state0) \<and> 0 < length (output_streams state0)"
    by (simp add: env0_def state0_def)
  from init_simple_filtergraph_links [of env0 0 state0 0, THEN conjunct1, rule_format, OF h]
  obtain fg s' where r: "init_simple_filtergraph env0 0 0 state0 = Inr (fg, s')"
    by blast
  from init_simple_filtergraph_links [of env0 0 state0 0, THEN conjunct2, rule_format, OF r]
  have p: "fg = 0" "inputs (fg_heap s' ! fg) = [Some 0]" "outputs (fg_heap s' ! fg) = [Some 0]"
    "if_ist (ifilter_heap s' ! 0) = Some 0" "ost_filter (output_streams s' ! 0) = Some 0"
    "filtergraphs s' = [Some fg]" "load (filtergraphs s') (fg_index (fg_heap s' ! fg)) = Inr (Some fg)"
    by (auto simp: Let_def state0_def)
  from p(6,7) have "fg_index (fg_heap s' ! fg) = 0"
    by (simp add: load_def split: if_splits)
  with r p show ?thesis by simp
qed

subsection \<open>Binding unlabelled input endpoints\<close>

lemma seq_eq_Inr: "seq m k = Inr y \<longleftrightarrow> (\<exists>x. m = Inr x \<and> k x = Inr y)"
  by (cases m) simp_all

lemma find_unused_le: "find_unused t xs k \<le> k + length xs"
proof (induction xs arbitrary: k)
  case Nil
  then show ?case by simp
next
  case (Cons x xs)
  from Cons [of "Suc k"] show ?case by simp
qed

lemma find_unused_ge: "k \<le> find_unused t xs k"
proof (induction xs arbitrary: k)
  case Nil
  then show ?case by simp
next
  case (Cons x xs)
  from Cons [of "Suc k"] show ?case by (simp add: Suc_leD)
qed

lemma find_unused_found:
  "find_unused t xs k < k + length xs \<Longrightarrow>
   unused t (xs ! (find_unused t xs k - k))
   \<and> (\<forall>j < find_unused t xs k - k. \<not> unused t (xs ! j))"
proof (induction xs arbitrary: k)
  case Nil
  then show ?case by simp
next
  case (Cons x xs)
  show ?case
  proof (cases "unused t x")
    case True
    then show ?thesis by (simp add: unused_def)
  next
    case False
    then have eq: "find_unused t (x # xs) k = find_unused t xs (Suc k)"
      by (auto simp: unused_def)
    with Cons.prems have lt: "find_unused t xs (Suc k) < Suc k + length xs" by simp
    have ge: "Suc k \<le> find_unused t xs (Suc k)" by (rule find_unused_ge)
    then have d: "find_unused t xs (Suc k) - k = Suc (find_unused t xs (Suc k) - Suc k)"
      by simp
    from Cons.IH [OF lt] False show ?thesis
      unfolding eq d by (auto simp: less_Suc_eq_0_disj)
  qed
qed

lemma find_unused_none:
  "find_unused t xs k = k + length xs \<Longrightarrow> \<forall>x \<in> set xs. \<not> unused t x"
proof (induction xs arbitrary: k)
  case Nil
  then show ?case by simp
next
  case (Cons x xs)
  have ge: "k \<le> find_unused t (x # xs) k" by (rule find_unused_ge)
  from Cons.prems have nx: "\<not> unused t x"
    by (auto simp: unused_def split: if_splits)
  then have "find_unused t (x # xs) k = find_unused t xs (Suc k)"
    by (auto simp: unused_def)
  with Cons.prems have "find_unused t xs (Suc k) = Suc k + length xs" by simp
  from Cons.IH [OF this] nx show ?case by simp
qed

lemma find_unused_first:
  assumes "i = find_unused t xs 0"
  shows "i \<le> length xs"
    and "i < length xs \<Longrightarrow> unused t (xs ! i) \<and> (\<forall>j < i. \<not> unused t (xs ! j))"
    and "i = length xs \<longleftrightarrow> (\<forall>x \<in> set xs. \<not> unused t x)"
proof -
  show "i \<le> length xs" using find_unused_le [of t xs 0] assms by simp
  show "i < length xs \<Longrightarrow> unused t (xs ! i) \<and> (\<forall>j < i. \<not> unused t (xs ! j))"
    using find_unused_found [of t xs 0] assms by simp
  show "i = length xs \<longleftrightarrow> (\<forall>x \<in> set xs. \<not> unused t x)"
  proof
    assume "i = length xs"
    then show "\<forall>x \<in> set xs. \<not> unused t x"
      using find_unused_none [of t xs 0] assms by simp
  next
    assume n: "\<forall>x \<in> set xs. \<not> unused t x"
    show "i = length xs"
    proof (rule ccontr)
      assume "i \<noteq> length xs"
      with \<open>i \<le> length xs\<close> have "i < length xs" by simp
      with find_unused_found [of t xs 0] assms have "unused t (xs ! i)" by simp
      with n \<open>i < length xs\<close> show False by (meson nth_mem)
    qed
  qed
qed

lemma fg_graph_valid: "fg_graph s fg = Inr gr \<Longrightarrow> fg < length (fg_heap s)"
  by (auto simp: fg_graph_def deref_def seq_def split: if_splits)

lemma store_last': "store (arr @ [x]) (int (length arr)) v = Inr (arr @ [v])"
  by (simp add: store_def)

lemma init_input_filter_unlabelled:
  assumes "io_name inp = None" "fg_graph s fg = Inr gr" "node gr (filter_ctx inp) = Inr c"
    and "avfilter_pad_get_type (input_pads c) (pad_idx inp) = Inr t"
    and "t = AVMEDIA_TYPE_VIDEO \<or> t = AVMEDIA_TYPE_AUDIO" "alloc_ok e"
    and "i = find_unused t (input_streams s) 0"
  shows "init_input_filter e fg inp s =
     (if i = length (input_streams s) then Inl (Exit 1) else Inr (bind_to fg i s))"
proof -
  have fg: "fg < length (fg_heap s)" using assms(2) by (rule fg_graph_valid)
  have i: "i \<le> length (input_streams s)" using find_unused_first(1) [OF assms(7)] .
  show ?thesis
  proof (cases "i = length (input_streams s)")
    case True
    then show ?thesis
      using assms by (auto simp add: init_input_filter_def select_stream_def Let_def)
  next
    case False
    with i have "i < length (input_streams s)" by simp
    then show ?thesis
      using assms fg False
      apply (simp add: init_input_filter_def select_stream_def)
      apply (simp add: Let_def GROW_ARRAY_def new_ifilter_def upd_ist_def upd_fg_def upd_ifilter_def
        store_last store_last' bind_to_def del: length_append append_assoc)
      done
  qed
qed

lemma init_input_filter_returns_unlabelled:
  assumes "init_input_filter e fg inp s = Inr s'" "io_name inp = None"
  shows "\<exists>t. find_unused t (input_streams s) 0 < length (input_streams s)
           \<and> fg < length (fg_heap s)
           \<and> s' = bind_to fg (find_unused t (input_streams s) 0) s"
proof -
  from assms(1) obtain gr where gr: "fg_graph s fg = Inr gr"
    unfolding init_input_filter_def seq_eq_Inr by blast
  with assms(1) obtain c where c: "node gr (filter_ctx inp) = Inr c"
    unfolding init_input_filter_def by (auto simp: seq_eq_Inr)
  with assms(1) gr obtain t where t: "avfilter_pad_get_type (input_pads c) (pad_idx inp) = Inr t"
    unfolding init_input_filter_def by (auto simp: seq_eq_Inr)
  have tv: "t = AVMEDIA_TYPE_VIDEO \<or> t = AVMEDIA_TYPE_AUDIO"
    using assms(1) gr c t unfolding init_input_filter_def by (auto split: if_splits)
  have al: "alloc_ok e"
  proof (rule ccontr)
    assume "\<not> alloc_ok e"
    then have "\<And>arr. GROW_ARRAY e arr = (Inl (Exit 1) :: fault + nat option list)"
      by (simp add: GROW_ARRAY_def)
    then have "init_input_filter e fg inp s \<noteq> Inr s'"
      using gr c t tv unfolding init_input_filter_def
      by (auto simp: Let_def seq_def split: sum.splits)
    with assms(1) show False by simp
  qed
  let ?i = "find_unused t (input_streams s) 0"
  from init_input_filter_unlabelled [OF assms(2) gr c t tv al refl] assms(1)
  have "?i \<noteq> length (input_streams s)" "s' = bind_to fg ?i s"
    by (auto split: if_splits)
  moreover have "?i \<le> length (input_streams s)"
    using find_unused_first(1) [OF refl] .
  ultimately show ?thesis
    using fg_graph_valid [OF gr] by (intro exI [of _ t]) auto
qed

lemma bind_to_streams:
  assumes "i < length (input_streams s)"
  shows "length (input_streams (bind_to fg i s)) = length (input_streams s)"
    and "discard (input_streams (bind_to fg i s) ! i) = 0"
    and "decoding_needed (input_streams (bind_to fg i s) ! i) = 1"
    and "st_discard (ist_st (input_streams (bind_to fg i s) ! i)) = AVDISCARD_NONE"
    and "ist_filters (input_streams (bind_to fg i s) ! i)
           = ist_filters (input_streams s ! i) @ [Some (length (ifilter_heap s))]"
    and "j \<noteq> i \<Longrightarrow> input_streams (bind_to fg i s) ! j = input_streams s ! j"
  using assms by (simp_all add: bind_to_def)

lemma bind_to_graph:
  assumes "fg < length (fg_heap s)"
  shows "inputs (fg_heap (bind_to fg i s) ! fg)
           = inputs (fg_heap s ! fg) @ [Some (length (ifilter_heap s))]"
    and "length (fg_heap (bind_to fg i s)) = length (fg_heap s)"
    and "ifilter_heap (bind_to fg i s) = ifilter_heap s @ [bound_cell fg i]"
  using assms by (simp_all add: bind_to_def bound_cell_def)

lemma init_input_filters_unlabelled:
  assumes "init_input_filters e fg ins s = Inr s'" "\<forall>inp \<in> set ins. io_name inp = None"
  shows "\<exists>sel. length sel = length ins \<and> distinct sel
      \<and> (\<forall>i \<in> set sel. i < length (input_streams s) \<and> discard (input_streams s ! i) \<noteq> 0
            \<and> discard (input_streams s' ! i) = 0)
      \<and> length (input_streams s') = length (input_streams s)
      \<and> (\<forall>j. discard (input_streams s ! j) = 0 \<longrightarrow> discard (input_streams s' ! j) = 0)
      \<and> inputs (fg_heap s' ! fg) = inputs (fg_heap s ! fg) @
            map Some [length (ifilter_heap s) ..< length (ifilter_heap s) + length ins]
      \<and> ifilter_heap s' = ifilter_heap s @ map (bound_cell fg) sel"
  using assms
proof (induction ins arbitrary: s)
  case Nil
  then show ?case by simp
next
  case (Cons inp rest)
  from Cons.prems(1) obtain s1 where
    s1: "init_input_filter e fg inp s = Inr s1" and r: "init_input_filters e fg rest s1 = Inr s'"
    by (auto simp: seq_eq_Inr)
  from Cons.prems(2) have u: "io_name inp = None" and ur: "\<forall>inp \<in> set rest. io_name inp = None"
    by simp_all
  from init_input_filter_returns_unlabelled [OF s1 u] obtain t where
    i: "find_unused t (input_streams s) 0 < length (input_streams s)"
    and fg: "fg < length (fg_heap s)"
    and b: "s1 = bind_to fg (find_unused t (input_streams s) 0) s"
    by blast
  define i where "i = find_unused t (input_streams s) 0"
  have il: "i < length (input_streams s)" and s1b: "s1 = bind_to fg i s"
    using i b by (simp_all add: i_def)
  have un: "discard (input_streams s ! i) \<noteq> 0"
    using find_unused_first(2) [OF i_def] il
    by (simp add: unused_def)
  note st = bind_to_streams [OF il, where fg = fg, folded s1b]
  note gr = bind_to_graph [OF fg, where i = i, folded s1b]
  from Cons.IH [OF r ur] obtain sel where
    len: "length sel = length rest" and dis: "distinct sel"
    and sel: "\<forall>k \<in> set sel. k < length (input_streams s1) \<and> discard (input_streams s1 ! k) \<noteq> 0
            \<and> discard (input_streams s' ! k) = 0"
    and ls: "length (input_streams s') = length (input_streams s1)"
    and fr: "\<forall>j. discard (input_streams s1 ! j) = 0 \<longrightarrow> discard (input_streams s' ! j) = 0"
    and ins: "inputs (fg_heap s' ! fg) = inputs (fg_heap s1 ! fg) @
            map Some [length (ifilter_heap s1) ..< length (ifilter_heap s1) + length rest]"
    and hp: "ifilter_heap s' = ifilter_heap s1 @ map (bound_cell fg) sel"
    by blast
  have ni: "i \<notin> set sel" using sel st(2) by auto
  have old: "discard (input_streams s ! k) \<noteq> 0" if "k \<in> set sel" for k
  proof -
    from that ni have "k \<noteq> i" by auto
    with sel that st(6) [of k] show ?thesis by auto
  qed
  have fr': "discard (input_streams s' ! j) = 0" if "discard (input_streams s ! j) = 0" for j
  proof (cases "j = i")
    case True
    with fr st(2) show ?thesis by simp
  next
    case False
    with fr st(6) [of j] that show ?thesis by simp
  qed
  have upt: "[length (ifilter_heap s) ..< length (ifilter_heap s) + length (inp # rest)]
      = length (ifilter_heap s) # [Suc (length (ifilter_heap s)) ..< Suc (length (ifilter_heap s)) + length rest]"
    using upt_conv_Cons [of "length (ifilter_heap s)" "length (ifilter_heap s) + Suc (length rest)"]
    by simp
  show ?case
  proof (intro exI [of _ "i # sel"] conjI)
    show "length (i # sel) = length (inp # rest)" using len by simp
    show "distinct (i # sel)" using dis ni by simp
    show "\<forall>k \<in> set (i # sel). k < length (input_streams s) \<and> discard (input_streams s ! k) \<noteq> 0
            \<and> discard (input_streams s' ! k) = 0"
      using il un fr st(2) sel st(1) old by auto
    show "length (input_streams s') = length (input_streams s)" using ls st(1) by simp
    show "\<forall>j. discard (input_streams s ! j) = 0 \<longrightarrow> discard (input_streams s' ! j) = 0"
      using fr' by blast
    show "inputs (fg_heap s' ! fg) = inputs (fg_heap s ! fg) @
            map Some [length (ifilter_heap s) ..< length (ifilter_heap s) + length (inp # rest)]"
      unfolding upt ins gr(1) gr(3) by simp
    show "ifilter_heap s' = ifilter_heap s @ map (bound_cell fg) (i # sel)"
      unfolding hp gr(3) by simp
  qed
qed

lemma bound_stream_new:
  assumes "ifilter_heap s' = heap @ map (bound_cell fg) sel"
  shows "map (bound_stream s') (map Some [length heap ..< length heap + length sel]) = map Some sel"
proof (rule nth_equalityI)
  show "length (map (bound_stream s') (map Some [length heap ..< length heap + length sel]))
        = length (map Some sel)" by simp
next
  fix k
  assume "k < length (map (bound_stream s') (map Some [length heap ..< length heap + length sel]))"
  then have k: "k < length sel" by simp
  then show "map (bound_stream s') (map Some [length heap ..< length heap + length sel]) ! k
             = map Some sel ! k"
    using assms by (simp add: bound_stream_def deref_def nth_append bound_cell_def)
qed

text \<open>
  Claim C8. An unlabelled endpoint whose pad is video or audio is bound to the first input
  stream, in the order of \<open>input_streams\<close>, that has the pad's media type and whose
  \<open>discard\<close> flag is set when the binding is made; the flag is cleared, the stream is
  marked \<open>decoding_needed\<close> and no other stream changes. When no such stream remains (or
  the pad is of another type) the process exits. Hence a run of unlabelled bindings
  never selects a stream twice: the streams it binds are pairwise distinct, each had its
  flag set before the run and has it cleared after.
\<close>

theorem unlabelled_binding:
  "(io_name inp = None \<and> fg_graph s fg = Inr gr \<and> node gr (filter_ctx inp) = Inr c
      \<and> avfilter_pad_get_type (input_pads c) (pad_idx inp) = Inr t \<and> alloc_ok e \<longrightarrow>
     (if (t = AVMEDIA_TYPE_VIDEO \<or> t = AVMEDIA_TYPE_AUDIO)
         \<and> (\<exists>x \<in> set (input_streams s). unused t x)
      then \<exists>i s'. init_input_filter e fg inp s = Inr s'
             \<and> i < length (input_streams s) \<and> unused t (input_streams s ! i)
             \<and> (\<forall>j < i. \<not> unused t (input_streams s ! j))
             \<and> discard (input_streams s' ! i) = 0
             \<and> decoding_needed (input_streams s' ! i) = 1
             \<and> st_discard (ist_st (input_streams s' ! i)) = AVDISCARD_NONE
             \<and> (\<forall>j. j \<noteq> i \<longrightarrow> input_streams s' ! j = input_streams s ! j)
             \<and> (\<exists>p. inputs (fg_heap s' ! fg) = inputs (fg_heap s ! fg) @ [p]
                    \<and> bound_stream s' p = Some i
                    \<and> ist_filters (input_streams s' ! i)
                        = ist_filters (input_streams s ! i) @ [p])
      else init_input_filter e fg inp s = Inl (Exit 1)))
   \<and> ((\<forall>inp \<in> set ins. io_name inp = None) \<and> init_input_filters e fg ins s = Inr s2 \<longrightarrow>
       (\<exists>sel. length sel = length ins \<and> distinct sel
          \<and> map (bound_stream s2)
                (drop (length (inputs (fg_heap s ! fg))) (inputs (fg_heap s2 ! fg))) = map Some sel
          \<and> (\<forall>i \<in> set sel. i < length (input_streams s)
                \<and> discard (input_streams s ! i) \<noteq> 0 \<and> discard (input_streams s2 ! i) = 0)))"
proof (intro conjI impI)
  assume a: "io_name inp = None \<and> fg_graph s fg = Inr gr \<and> node gr (filter_ctx inp) = Inr c
      \<and> avfilter_pad_get_type (input_pads c) (pad_idx inp) = Inr t \<and> alloc_ok e"
  let ?R = "\<lambda>i s'. init_input_filter e fg inp s = Inr s'
             \<and> i < length (input_streams s) \<and> unused t (input_streams s ! i)
             \<and> (\<forall>j < i. \<not> unused t (input_streams s ! j))
             \<and> discard (input_streams s' ! i) = 0
             \<and> decoding_needed (input_streams s' ! i) = 1
             \<and> st_discard (ist_st (input_streams s' ! i)) = AVDISCARD_NONE
             \<and> (\<forall>j. j \<noteq> i \<longrightarrow> input_streams s' ! j = input_streams s ! j)
             \<and> (\<exists>p. inputs (fg_heap s' ! fg) = inputs (fg_heap s ! fg) @ [p]
                    \<and> bound_stream s' p = Some i
                    \<and> ist_filters (input_streams s' ! i)
                        = ist_filters (input_streams s ! i) @ [p])"
  show "if (t = AVMEDIA_TYPE_VIDEO \<or> t = AVMEDIA_TYPE_AUDIO)
         \<and> (\<exists>x \<in> set (input_streams s). unused t x)
      then \<exists>i s'. ?R i s'
      else init_input_filter e fg inp s = Inl (Exit 1)"
  proof (cases "t = AVMEDIA_TYPE_VIDEO \<or> t = AVMEDIA_TYPE_AUDIO")
    case False
    then show ?thesis using a by (simp add: init_input_filter_def)
  next
    case tv: True
    define i where "i = find_unused t (input_streams s) 0"
    have r: "init_input_filter e fg inp s =
       (if i = length (input_streams s) then Inl (Exit 1) else Inr (bind_to fg i s))"
      using a tv i_def by (intro init_input_filter_unlabelled [where gr = gr and c = c]) simp_all
    have fg: "fg < length (fg_heap s)" using a fg_graph_valid by blast
    show ?thesis
    proof (cases "\<exists>x \<in> set (input_streams s). unused t x")
      case False
      with find_unused_first(3) [OF i_def] r tv show ?thesis by simp
    next
      case True
      with find_unused_first [OF i_def] have il: "i < length (input_streams s)"
        and fi: "unused t (input_streams s ! i) \<and> (\<forall>j < i. \<not> unused t (input_streams s ! j))"
        by auto
      have bs: "bound_stream (bind_to fg i s) (Some (length (ifilter_heap s))) = Some i"
        by (simp add: bound_stream_def deref_def bind_to_graph(3) [OF fg] bound_cell_def)
      have "?R i (bind_to fg i s)"
        using r il fi bind_to_streams [OF il, where fg = fg] bind_to_graph(1) [OF fg, where i = i] bs
        by auto
      with tv True show ?thesis by auto
    qed
  qed
next
  assume a: "(\<forall>inp \<in> set ins. io_name inp = None) \<and> init_input_filters e fg ins s = Inr s2"
  from init_input_filters_unlabelled [of e fg ins s s2] a obtain sel where
    len: "length sel = length ins" and dis: "distinct sel"
    and sel: "\<forall>i \<in> set sel. i < length (input_streams s) \<and> discard (input_streams s ! i) \<noteq> 0
            \<and> discard (input_streams s2 ! i) = 0"
    and ins: "inputs (fg_heap s2 ! fg) = inputs (fg_heap s ! fg) @
            map Some [length (ifilter_heap s) ..< length (ifilter_heap s) + length ins]"
    and hp: "ifilter_heap s2 = ifilter_heap s @ map (bound_cell fg) sel"
    by blast
  have "map (bound_stream s2)
         (drop (length (inputs (fg_heap s ! fg))) (inputs (fg_heap s2 ! fg))) = map Some sel"
    unfolding ins using bound_stream_new [OF hp] len by simp
  with len dis sel show "\<exists>sel. length sel = length ins \<and> distinct sel
          \<and> map (bound_stream s2)
                (drop (length (inputs (fg_heap s ! fg))) (inputs (fg_heap s2 ! fg))) = map Some sel
          \<and> (\<forall>i \<in> set sel. i < length (input_streams s)
                \<and> discard (input_streams s ! i) \<noteq> 0 \<and> discard (input_streams s2 ! i) = 0)"
    by blast
qed

theorem unlabelled_binding_witness:
  "(\<exists>s'. init_input_filter env0 0 inp0 state1 = Inr s'
        \<and> discard (input_streams s' ! 1) = 0 \<and> decoding_needed (input_streams s' ! 1) = 1
        \<and> input_streams s' ! 2 = input_streams state1 ! 2)
   \<and> (\<exists>s2 sel. init_input_filters env0 0 [inp0, inp1] state1 = Inr s2
        \<and> length sel = 2 \<and> distinct sel
        \<and> map (bound_stream s2) (inputs (fg_heap s2 ! 0)) = map Some sel)
   \<and> init_input_filter env0 0 inp0 (state1\<lparr>input_streams := [ist0\<lparr>discard := 0\<rparr>]\<rparr>)
        = Inl (Exit 1)"
proof -
  let ?c = "hd (filters graph1)"
  have u0: "io_name inp0 = None" and u1: "io_name inp1 = None"
    by (simp_all add: inp0_def inp1_def)
  have al: "alloc_ok env0" by (simp add: env0_def)
  have n0: "node graph1 (filter_ctx inp0) = Inr ?c" and n1: "node graph1 (filter_ctx inp1) = Inr ?c"
    by (simp_all add: node_def graph1_def inp0_def inp1_def deref_def)
  have t0: "avfilter_pad_get_type (input_pads ?c) (pad_idx inp0) = Inr AVMEDIA_TYPE_VIDEO"
    and t1: "avfilter_pad_get_type (input_pads ?c) (pad_idx inp1) = Inr AVMEDIA_TYPE_VIDEO"
    by (simp_all add: avfilter_pad_get_type_def load_def graph1_def inp0_def inp1_def)
  have g: "fg_graph state1 0 = Inr graph1"
    by (simp add: fg_graph_def state1_def state0_def deref_def)
  have un: "unused AVMEDIA_TYPE_VIDEO ist0" "\<not> unused AVMEDIA_TYPE_VIDEO (ist0\<lparr>discard := 0\<rparr>)"
    by (simp_all add: unused_def ist0_def stream0_def codec0_def)
  have str: "input_streams state1 = [ist0\<lparr>discard := 0\<rparr>, ist0, ist0]"
    by (simp add: state1_def)
  have ex: "\<exists>x \<in> set (input_streams state1). unused AVMEDIA_TYPE_VIDEO x"
    using un by (simp add: str)
  from unlabelled_binding [of inp0 state1 0 graph1 ?c AVMEDIA_TYPE_VIDEO env0,
      THEN conjunct1, rule_format, OF conjI [OF u0 conjI [OF g conjI [OF n0 conjI [OF t0 al]]]]]
    ex
  obtain i s' where r: "init_input_filter env0 0 inp0 state1 = Inr s'"
    and i: "i < length (input_streams state1)" "unused AVMEDIA_TYPE_VIDEO (input_streams state1 ! i)"
      "\<forall>j < i. \<not> unused AVMEDIA_TYPE_VIDEO (input_streams state1 ! j)"
    and d: "discard (input_streams s' ! i) = 0" "decoding_needed (input_streams s' ! i) = 1"
    and o: "\<forall>j. j \<noteq> i \<longrightarrow> input_streams s' ! j = input_streams state1 ! j"
    by auto
  have "i = 0 \<or> i = 1 \<or> i = 2" using i(1) by (auto simp: str)
  moreover have "i \<noteq> 0"
  proof
    assume "i = 0"
    with i(2) un show False by (simp add: str)
  qed
  moreover have "i \<noteq> 2"
  proof
    assume "i = 2"
    with i(3) have "\<not> unused AVMEDIA_TYPE_VIDEO (input_streams state1 ! 1)" by simp
    with un show False by (simp add: str)
  qed
  ultimately have i1: "i = 1" by blast
  have first: "\<exists>s'. init_input_filter env0 0 inp0 state1 = Inr s'
        \<and> discard (input_streams s' ! 1) = 0 \<and> decoding_needed (input_streams s' ! 1) = 1
        \<and> input_streams s' ! 2 = input_streams state1 ! 2"
    using r d o i1 by auto
  have f1: "1 = find_unused AVMEDIA_TYPE_VIDEO (input_streams state1) 0"
    using un by (simp add: str unused_def)
  have r1: "init_input_filter env0 0 inp0 state1 = Inr (bind_to 0 1 state1)"
    using init_input_filter_unlabelled [OF u0 g n0 t0 _ al f1] by (simp add: str)
  let ?s1 = "bind_to 0 1 state1"
  have g1: "fg_graph ?s1 0 = Inr graph1"
    by (simp add: fg_graph_def bind_to_def state1_def state0_def deref_def)
  have str1: "input_streams ?s1 ! 0 = ist0\<lparr>discard := 0\<rparr>" "input_streams ?s1 ! 2 = ist0"
    "discard (input_streams ?s1 ! 1) = 0" "length (input_streams ?s1) = 3"
    by (simp_all add: bind_to_def str)
  have f2: "2 = find_unused AVMEDIA_TYPE_VIDEO (input_streams ?s1) 0"
  proof -
    have "input_streams ?s1 = [input_streams ?s1 ! 0, input_streams ?s1 ! 1, input_streams ?s1 ! 2]"
      using str1(4) by (simp add: bind_to_def str)
    then have "find_unused AVMEDIA_TYPE_VIDEO (input_streams ?s1) 0
        = find_unused AVMEDIA_TYPE_VIDEO
            [ist0\<lparr>discard := 0\<rparr>, input_streams ?s1 ! 1, ist0] 0"
      using str1(1,2) by simp
    also have "\<dots> = 2" using un str1(3) by (simp add: unused_def)
    finally show ?thesis by simp
  qed
  have r2: "init_input_filter env0 0 inp1 ?s1 = Inr (bind_to 0 2 ?s1)"
    using init_input_filter_unlabelled [OF u1 g1 n1 t1 _ al f2] str1(4) by simp
  have seq2: "init_input_filters env0 0 [inp0, inp1] state1 = Inr (bind_to 0 2 ?s1)"
    by (simp only: init_input_filters.simps r1 r2 seq_Inr)
  have "\<forall>inp \<in> set [inp0, inp1]. io_name inp = None" using u0 u1 by simp
  from unlabelled_binding [of _ state1 0 _ _ _ env0 "[inp0, inp1]" "bind_to 0 2 ?s1",
      THEN conjunct2, rule_format, OF conjI [OF this seq2]]
  obtain sel where sl: "length sel = length [inp0, inp1]" and sd: "distinct sel"
    and sm: "map (bound_stream (bind_to 0 2 ?s1))
       (drop (length (inputs (fg_heap state1 ! 0))) (inputs (fg_heap (bind_to 0 2 ?s1) ! 0)))
     = map Some sel"
    by blast
  have "inputs (fg_heap state1 ! 0) = []" by (simp add: state1_def)
  with sm have "map (bound_stream (bind_to 0 2 ?s1)) (inputs (fg_heap (bind_to 0 2 ?s1) ! 0))
     = map Some sel" by simp
  moreover from sl have "length sel = 2" by simp
  ultimately have second: "\<exists>s2 sel. init_input_filters env0 0 [inp0, inp1] state1 = Inr s2
        \<and> length sel = 2 \<and> distinct sel
        \<and> map (bound_stream s2) (inputs (fg_heap s2 ! 0)) = map Some sel"
    using seq2 sd by blast
  let ?s3 = "state1\<lparr>input_streams := [ist0\<lparr>discard := 0\<rparr>]\<rparr>"
  have g3: "fg_graph ?s3 0 = Inr graph1"
    by (simp add: fg_graph_def state1_def state0_def deref_def)
  have "\<not> (\<exists>x \<in> set (input_streams ?s3). unused AVMEDIA_TYPE_VIDEO x)"
    using un by simp
  with unlabelled_binding [of inp0 ?s3 0 graph1 ?c AVMEDIA_TYPE_VIDEO env0,
      THEN conjunct1, rule_format, OF conjI [OF u0 conjI [OF g3 conjI [OF n0 conjI [OF t0 al]]]]]
  have third: "init_input_filter env0 0 inp0 ?s3 = Inl (Exit 1)"
    by simp
  from first second third show ?thesis by blast
qed

subsection \<open>Inserting the trim node\<close>

lemma insert_trim_no_window:
  assumes "load ofs (ost_file_index ost) = Inr ofile" "node g lf = Inr c" "\<not> window ofile"
  shows "insert_trim e ofs ost (g, lf, pad) = Inr (0, g, lf, pad)"
  using assms by (simp add: insert_trim_def window_def)

lemma upd_new_node: "(xs @ [n])[length xs := m] = xs @ [m]"
  by simp

lemma nth_new_node: "(xs @ [n]) ! length xs = n"
  by simp

lemma set_trim_options_run:
  assumes "set_trim_options e ofile (with_node g (trim_stage e ost [] False)) (length (filters g))
             = (ret, g')"
  shows "(ret < 0 \<longrightarrow> (\<exists>rs. filter (\<lambda>r. r < 0) (option_calls e ost ofile g) = ret # rs))
       \<and> (0 \<le> ret \<longrightarrow> filter (\<lambda>r. r < 0) (option_calls e ost ofile g) = []
              \<and> g' = with_node g (trim_stage e ost (trim_options ofile) False))"
  using assms
  by (auto simp add: set_trim_options_def av_opt_set_double_def Let_def option_calls_def
      duration_option_def start_option_def trim_options_def with_node_def trim_stage_def
      upd_new_node nth_new_node split: if_splits prod.splits)

lemma set_trim_options_frame:
  assumes "set_trim_options e ofile g ctx = (ret, g')"
  shows "links g' = links g \<and> length (filters g') = length (filters g)
         \<and> take ctx (filters g') = take ctx (filters g)"
  using assms
  by (auto simp add: set_trim_options_def av_opt_set_double_def Let_def
      split: if_splits prod.splits)

lemma avfilter_init_str_ok:
  assumes "avfilter_init_str e (g\<lparr>filters := filters g @ [n]\<rparr>) (length (filters g)) args = (ret, g')"
    and "0 \<le> ret"
  shows "g' = g\<lparr>filters := filters g @ [n\<lparr>init_args := args, initialised := True\<rparr>]\<rparr>"
  using assms
  by (auto simp add: avfilter_init_str_def Let_def upd_new_node nth_new_node split: if_splits)

lemma avfilter_init_str_code:
  assumes "avfilter_init_str e g ctx args = (ret, g')"
  shows "ret = init_str_rc e g ctx args"
  using assms by (auto simp add: avfilter_init_str_def Let_def split: if_splits)

lemma avfilter_init_str_frame:
  assumes "avfilter_init_str e g ctx args = (ret, g')"
  shows "links g' = links g \<and> length (filters g') = length (filters g)
         \<and> take ctx (filters g') = take ctx (filters g)"
  using assms by (auto simp add: avfilter_init_str_def Let_def split: if_splits)

lemma avfilter_link_result:
  assumes "avfilter_link e g src sp dst dp = (ret, g')"
  shows "filters g' = filters g"
    and "ret < 0 \<Longrightarrow> g' = g"
    and "0 \<le> ret \<Longrightarrow> g' = g\<lparr>links := links g @ [(src, sp, dst, dp)]\<rparr>"
    and "ret = link_rc e g (src, sp, dst, dp)"
  using assms by (auto simp add: avfilter_link_def Let_def split: if_splits)

lemma insert_trim_window:
  assumes "load ofs (ost_file_index ost) = Inr ofile" "node g lf = Inr c" "window ofile"
  shows "\<exists>ret g' lf' pad'. insert_trim e ofs ost (g, lf, pad) = Inr (ret, g', lf', pad')
     \<and> ret = trim_code e ost ofile (g, lf, pad)
     \<and> (0 \<le> ret \<longrightarrow> ret = 0 \<and> lf' = length (filters g) \<and> pad' = 0
          \<and> g' = g\<lparr>filters := filters g @ [trim_node e ost ofile],
                   links := links g @ [(lf, pad, length (filters g), 0)]\<rparr>)
     \<and> (ret < 0 \<longrightarrow> lf' = lf \<and> pad' = pad \<and> links g' = links g
          \<and> take (length (filters g)) (filters g') = filters g
          \<and> length (filters g') \<le> Suc (length (filters g)))"
proof -
  let ?name = "trim_name ost"
  let ?fname = "snprintf 128 (?name @ '' for output stream '' @ stream_label ost)"
  let ?n0 = "trim_stage e ost [] False"
  let ?g1 = "with_node g ?n0"
  let ?ctx = "length (filters g)"
  let ?oc = "filter (\<lambda>r. r < 0) (option_calls e ost ofile g)"
  let ?i = "init_str_rc e (with_node g (trim_stage e ost (trim_options ofile) False)) ?ctx None"
  let ?l = "link_rc e (with_node g (trim_stage e ost (trim_options ofile) True)) (lf, pad, ?ctx, 0)"
  have w: "\<not> (recording_time ofile = INT64_MAX \<and> start_time ofile = 0)"
    using assms(3) by (auto simp: window_def)
  note unf = insert_trim_def assms(1,2) seq_Inr trim_name_def [symmetric] Let_def
    avfilter_get_by_name_def avfilter_graph_alloc_filter_def
  show ?thesis
  proof (cases "get_by_name e ?name \<and> alloc_filter_ok e g ?name ?fname")
    case False
    then have "insert_trim e ofs ost (g, lf, pad) = Inr (trim_code e ost ofile (g, lf, pad), g, lf, pad)"
      and "trim_code e ost ofile (g, lf, pad) < 0"
      by (auto simp add: unf w trim_code_def AVERROR_FILTER_NOT_FOUND_def AVERROR_ENOMEM_def)
    then show ?thesis by simp
  next
    case True
    have code: "trim_code e ost ofile (g, lf, pad) =
        (case ?oc of [] \<Rightarrow> if ?i < 0 then ?i else if ?l < 0 then ?l else 0 | r # rs \<Rightarrow> r)"
      using True by (simp add: trim_code_def trim_calls_def split: list.splits)
    have g1: "?g1 = g\<lparr>filters := filters g @
        [\<lparr>filter_name = ?name, inst_name = ?fname, init_args = None, initialised = False,
          options = [], input_pads = fst (filter_pads e ?name),
          output_pads = snd (filter_pads e ?name)\<rparr>]\<rparr>"
      by (simp add: with_node_def trim_stage_def)
    obtain r2 g2 where o: "set_trim_options e ofile ?g1 ?ctx = (r2, g2)" by force
    obtain r3 g3 where i: "avfilter_init_str e g2 ?ctx None = (r3, g3)" by force
    obtain r4 g4 where l: "avfilter_link e g3 lf pad ?ctx 0 = (r4, g4)" by force
    have body: "insert_trim e ofs ost (g, lf, pad) =
        (if r2 < 0 then Inr (r2, g2, lf, pad)
         else if r3 < 0 then Inr (r3, g3, lf, pad)
         else if r4 < 0 then Inr (r4, g4, lf, pad) else Inr (0, g4, ?ctx, 0))"
      using True o [unfolded g1] i l by (simp add: unf w)
    have f2: "links g2 = links g" "length (filters g2) = Suc (length (filters g))"
      "take ?ctx (filters g2) = filters g"
      using set_trim_options_frame [OF o] by (simp_all add: with_node_def)
    have f3: "links g3 = links g" "length (filters g3) = Suc (length (filters g))"
      "take ?ctx (filters g3) = filters g"
      using avfilter_init_str_frame [OF i] f2 by simp_all
    note run = set_trim_options_run [OF o]
    show ?thesis
    proof (cases "r2 < 0")
      case True
      with run obtain rs where "?oc = r2 # rs" by blast
      with code have "trim_code e ost ofile (g, lf, pad) = r2" by simp
      with True body f2 show ?thesis by simp
    next
      case False
      then have ok2: "0 \<le> r2" by simp
      with run have oc: "?oc = []"
        and g2: "g2 = with_node g (trim_stage e ost (trim_options ofile) False)" by auto
      have r3: "r3 = ?i"
        using avfilter_init_str_code [OF i] g2 by simp
      show ?thesis
      proof (cases "r3 < 0")
        case True
        with code oc r3 have "trim_code e ost ofile (g, lf, pad) = r3" by simp
        with True ok2 body f3 show ?thesis by simp
      next
        case False
        then have ok3: "0 \<le> r3" by simp
        have "avfilter_init_str e
                (g\<lparr>filters := filters g @ [trim_stage e ost (trim_options ofile) False]\<rparr>)
                ?ctx None = (r3, g3)"
          using i g2 by (simp add: with_node_def)
        from avfilter_init_str_ok [OF this ok3]
        have g3: "g3 = with_node g (trim_stage e ost (trim_options ofile) True)"
          by (simp add: with_node_def trim_stage_def)
        have r4: "r4 = ?l"
          using avfilter_link_result(4) [OF l] g3 by simp
        show ?thesis
        proof (cases "r4 < 0")
          case True
          with code oc r3 r4 ok3 have "trim_code e ost ofile (g, lf, pad) = r4" by simp
          with True ok2 ok3 body f3 avfilter_link_result(1,2) [OF l] show ?thesis by simp
        next
          case False
          then have ok4: "0 \<le> r4" by simp
          with code oc r3 r4 ok3 have c0: "trim_code e ost ofile (g, lf, pad) = 0" by simp
          have g4: "g4 = g\<lparr>filters := filters g @ [trim_node e ost ofile],
                       links := links g @ [(lf, pad, ?ctx, 0)]\<rparr>"
            using avfilter_link_result(3) [OF l ok4] g3 by (simp add: with_node_def trim_node_def)
          show ?thesis using body ok2 ok3 ok4 g4 c0 by simp
        qed
      qed
    qed
  qed
qed




subsection \<open>The chain in front of a video sink\<close>

lemma follows_more: "follows nm cur ls ts \<Longrightarrow> follows (nm @ extra) cur ls ts"
  by (induction ls arbitrary: cur ts) (auto split: list.splits simp: nth_append)

lemma follows_append:
  "follows nm cur l1 t1 \<Longrightarrow> follows nm (chain_end cur l1) l2 t2 \<Longrightarrow>
   follows nm cur (l1 @ l2) (t1 @ t2)"
proof (induction l1 arbitrary: cur t1)
  case Nil
  then show ?case by (simp add: chain_end_def)
next
  case (Cons l l1)
  then obtain t ts where t1: "t1 = t # ts" by (cases t1) auto
  have e: "chain_end cur (l # l1) = chain_end (fst (snd (snd l)), 0) l1"
    by (simp add: chain_end_def)
  from Cons.prems t1 have "follows nm (fst (snd (snd l)), 0) l1 ts" by simp
  from Cons.IH [OF this] Cons.prems(2) e
  have "follows nm (fst (snd (snd l)), 0) (l1 @ l2) (ts @ t2)" by simp
  with Cons.prems(1) t1 show ?case by simp
qed

lemma chain_end_append: "chain_end (chain_end cur l1) l2 = chain_end cur (l1 @ l2)"
  by (simp add: chain_end_def)

lemma grows_refl: "grows [] c c"
  by (cases c) (simp add: grows_def chain_end_def)

lemma grows_trans:
  assumes "grows n1 c c'" "grows n2 c' c''"
  shows "grows (n1 @ n2) c c''"
proof -
  obtain g lf pad where c: "c = (g, lf, pad)" by (cases c)
  obtain g' lf' pad' where c': "c' = (g', lf', pad')" by (cases c')
  obtain g'' lf'' pad'' where c'': "c'' = (g'', lf'', pad'')" by (cases c'')
  from assms(1) c c' obtain l1 where
    f1: "filters g' = filters g @ n1" and l1: "links g' = links g @ l1"
    and p1: "follows (map filter_name (filters g')) (lf, pad) l1 (map filter_name n1)"
    and e1: "(lf', pad') = chain_end (lf, pad) l1"
    by (auto simp: grows_def)
  from assms(2) c' c'' obtain l2 where
    f2: "filters g'' = filters g' @ n2" and l2: "links g'' = links g' @ l2"
    and p2: "follows (map filter_name (filters g'')) (lf', pad') l2 (map filter_name n2)"
    and e2: "(lf'', pad'') = chain_end (lf', pad') l2"
    by (auto simp: grows_def)
  have "follows (map filter_name (filters g'')) (lf, pad) l1 (map filter_name n1)"
    using follows_more [OF p1, of "map filter_name n2"] f2 by simp
  from follows_append [OF this] p2 e1
  have "follows (map filter_name (filters g'')) (lf, pad) (l1 @ l2) (map filter_name (n1 @ n2))"
    by simp
  moreover have "(lf'', pad'') = chain_end (lf, pad) (l1 @ l2)"
    using e1 e2 chain_end_append by simp
  ultimately show ?thesis
    using f1 f2 l1 l2 c c'' by (auto simp: grows_def)
qed

lemma nth_after_map: "(map f xs @ [t]) ! length xs = t"
  by (simp add: nth_append)

lemma create_filter_Inr:
  assumes "avfilter_graph_create_filter e g (avfilter_get_by_name e ftype) nm args = (Inr c, g')"
  shows "c = length (filters g) \<and> g' = g\<lparr>filters := filters g @ [created e ftype nm args]\<rparr>"
  using assms
  by (auto simp add: avfilter_graph_create_filter_def avfilter_get_by_name_def
      avfilter_graph_alloc_filter_def avfilter_init_str_def Let_def created_def
      split: if_splits option.splits prod.splits)

lemma create_filter_Inl:
  assumes "avfilter_graph_create_filter e g filt nm args = (Inl ret, g')"
  shows "ret < 0 \<and> g' = g"
  using assms
  by (auto simp add: avfilter_graph_create_filter_def avfilter_init_str_def Let_def
      AVERROR_ENOMEM_def split: if_splits option.splits prod.splits)

lemma append_filter_grows:
  assumes "append_filter e ftype nm args c = (ret, c')" "0 \<le> ret"
  shows "ret = 0 \<and> grows [created e ftype nm args] c c'"
proof -
  obtain g lf pad where c: "c = (g, lf, pad)" by (cases c)
  obtain r g1 where cr: "avfilter_graph_create_filter e g (avfilter_get_by_name e ftype) nm args = (r, g1)"
    by force
  show ?thesis
  proof (cases r)
    case (Inl x)
    with create_filter_Inl [of e g _ nm args x g1] cr assms c show ?thesis
      by (auto simp: append_filter_def)
  next
    case (Inr flt)
    with create_filter_Inr [of e g ftype nm args flt g1] cr
    have flt: "flt = length (filters g)"
      and g1: "g1 = g\<lparr>filters := filters g @ [created e ftype nm args]\<rparr>" by auto
    obtain r2 g2 where l: "avfilter_link e g1 lf pad flt 0 = (r2, g2)" by force
    from assms c cr Inr l have r2: "0 \<le> r2" and res: "ret = 0" "c' = (g2, flt, 0)"
      by (auto simp: append_filter_def split: if_splits)
    from avfilter_link_result(3) [OF l r2] g1
    have g2: "g2 = g\<lparr>filters := filters g @ [created e ftype nm args],
                     links := links g @ [(lf, pad, flt, 0)]\<rparr>" by simp
    show ?thesis
      using res g2 flt c by (simp add: grows_def chain_end_def created_def nth_after_map)
  qed
qed

lemma on_success_ok:
  assumes "on_success r k = Inr (ret, c'')" "0 \<le> ret"
  shows "\<exists>ret1 c'. r = Inr (ret1, c') \<and> 0 \<le> ret1 \<and> k c' = Inr (ret, c'')"
  using assms by (cases r) (auto simp: on_success_def split: if_splits)

lemma video_scale_grows:
  assumes "video_scale e ost c = Inr (ret, c')" "0 \<le> ret"
  shows "\<exists>ns. grows ns c c'
     \<and> map filter_name ns = (if width (codec (st ost)) \<noteq> 0 \<or> height (codec (st ost)) \<noteq> 0
                              then [''scale''] else [])"
proof (cases "width (codec (st ost)) \<noteq> 0 \<or> height (codec (st ost)) \<noteq> 0")
  case True
  with assms(1) obtain nm args where "append_filter e ''scale'' nm args c = (ret, c')"
    by (auto simp: video_scale_def Let_def)
  from append_filter_grows [OF this assms(2)] True show ?thesis
    by (intro exI [of _ "[created e ''scale'' nm args]"]) (simp add: created_def)
next
  case False
  with assms(1) have "c' = c" by (auto simp: video_scale_def Let_def)
  with False grows_refl show ?thesis by (intro exI [of _ "[]"]) simp
qed

lemma video_fps_grows:
  assumes "video_fps e ost c = Inr (ret, c')" "0 \<le> ret"
  shows "\<exists>ns. grows ns c c'
     \<and> map filter_name ns = (if fst (frame_rate ost) \<noteq> 0 then [''fps''] else [])"
proof (cases "fst (frame_rate ost) \<noteq> 0")
  case True
  with assms(1) obtain nm args where "append_filter e ''fps'' nm args c = (ret, c')"
    by (auto simp: video_fps_def)
  from append_filter_grows [OF this assms(2)] True show ?thesis
    by (intro exI [of _ "[created e ''fps'' nm args]"]) (simp add: created_def)
next
  case False
  with assms(1) have "c' = c" by (auto simp: video_fps_def)
  with False grows_refl show ?thesis by (intro exI [of _ "[]"]) simp
qed

lemma video_format_grows:
  assumes "video_format e ost c = Inr (ret, c')" "0 \<le> ret"
  shows "\<exists>fmts ns. choose_pix_fmts e ost = Inr fmts \<and> grows ns c c'
     \<and> map filter_name ns = (if fmts \<noteq> None then [''format''] else [])
     \<and> (\<forall>n \<in> set ns. init_args n = fmts)"
proof -
  from assms(1) obtain fmts where ch: "choose_pix_fmts e ost = Inr fmts"
    by (auto simp: video_format_def seq_eq_Inr)
  show ?thesis
  proof (cases fmts)
    case None
    with assms(1) ch have "c' = c" by (simp add: video_format_def)
    with None ch grows_refl show ?thesis by (intro exI [of _ fmts] exI [of _ "[]"]) simp
  next
    case (Some f)
    with assms(1) ch have "append_filter e ''format'' ''format'' (Some f) c = (ret, c')"
      by (simp add: video_format_def)
    from append_filter_grows [OF this assms(2)] Some ch show ?thesis
      by (intro exI [of _ fmts] exI [of _ "[created e ''format'' ''format'' (Some f)]"])
        (simp add: created_def)
  qed
qed

lemma insert_trim_grows:
  assumes "insert_trim e ofs ost c = Inr (ret, c')" "0 \<le> ret"
  shows "\<exists>ofile ns. load ofs (ost_file_index ost) = Inr ofile \<and> grows ns c c'
     \<and> ns = (if window ofile then [trim_node e ost ofile] else [])"
proof -
  obtain g lf pad where c: "c = (g, lf, pad)" by (cases c)
  from assms(1) c obtain ofile where l: "load ofs (ost_file_index ost) = Inr ofile"
    by (auto simp: insert_trim_def seq_eq_Inr)
  with assms(1) c obtain n where n: "node g lf = Inr n"
    by (auto simp: insert_trim_def seq_eq_Inr)
  show ?thesis
  proof (cases "window ofile")
    case False
    with insert_trim_no_window [OF l n, of e pad] assms(1) c have "c' = c" by simp
    with False l grows_refl show ?thesis by (intro exI [of _ ofile] exI [of _ "[]"]) simp
  next
    case True
    from insert_trim_window [OF l n True, of e pad] assms c
    have "c' = (g\<lparr>filters := filters g @ [trim_node e ost ofile],
                  links := links g @ [(lf, pad, length (filters g), 0)]\<rparr>, length (filters g), 0)"
      by auto
    then have "grows [trim_node e ost ofile] c c'"
      using c by (simp add: grows_def chain_end_def trim_node_def trim_stage_def nth_after_map)
    with True l show ?thesis by (intro exI [of _ ofile] exI [of _ "[trim_node e ost ofile]"]) simp
  qed
qed

lemma link_sink_ok:
  assumes "link_sink e sink (g, lf, pad) = Inr (ret, c')" "0 \<le> ret"
  shows "ret = 0 \<and> c' = (g\<lparr>links := links g @ [(lf, pad, sink, 0)]\<rparr>, lf, pad)"
proof -
  obtain r g1 where l: "avfilter_link e g lf pad sink 0 = (r, g1)" by force
  with assms have "0 \<le> r" "ret = 0" "c' = (g1, lf, pad)"
    by (auto simp: link_sink_def split: if_splits)
  with avfilter_link_result(3) [OF l] show ?thesis by simp
qed

lemma choose_format_constrained:
  "choose_format e none gn var lst = Inr r \<Longrightarrow>
   (r \<noteq> None \<longleftrightarrow> (if var \<noteq> none then av_strdup e (gn var) \<noteq> None else lst \<noteq> None))"
  by (auto simp: choose_format_def Let_def split: if_splits option.splits sum.splits)

lemma follows_to_sink:
  assumes "follows nm cur ls ts" "chain_end cur ls = (lf, pad)" "sink < length nm" "nm ! sink = t"
  shows "follows nm cur (ls @ [(lf, pad, sink, 0)]) (ts @ [t])"
    and "chain_end cur (ls @ [(lf, pad, sink, 0)]) = (sink, 0)"
proof -
  have "follows nm (chain_end cur ls) [(lf, pad, sink, 0)] [t]"
    using assms(2,3,4) by simp
  from follows_append [OF assms(1) this]
  show "follows nm cur (ls @ [(lf, pad, sink, 0)]) (ts @ [t])" .
  show "chain_end cur (ls @ [(lf, pad, sink, 0)]) = (sink, 0)"
    by (simp add: chain_end_def)
qed

text \<open>
  Claim C6 (as amended). When \<open>configure_output_video_filter\<close> returns without error for a
  video stream, the sink was created first and the nodes \<open>ns\<close> created after it are, in
  this order, a \<open>scale\<close> node exactly when a width or height is set, a \<open>format\<close> node
  exactly when \<open>choose_pix_fmts\<close> returned a string (for a fixed pixel format: its name was
  found and copied; for an unset one: the encoder declares a list), an \<open>fps\<close> node
  exactly when the frame rate is set and a \<open>trim\<close> node exactly when the file has a
  recording window. The new links form one chain
  from the endpoint of the user's graph through these nodes, each entered at pad 0 and
  left at pad 0, and end in the sink.
\<close>

theorem video_output_chain:
  assumes "configure_output_video_filter e ofs ost out g = Inr (ret, flt, g')" and "0 \<le> ret"
    and "codec_type (codec (st ost)) = AVMEDIA_TYPE_VIDEO"
    and "choose_pix_fmts e ost = Inr fmts" and "load ofs (ost_file_index ost) = Inr ofile"
    and "ns = drop (Suc (length (filters g))) (filters g')"
    and "ls = drop (length (links g)) (links g')"
  shows "ret = 0 \<and> flt = Some (length (filters g))
    \<and> filters g' = filters g @
         created e ''buffersink'' (snprintf 255 (''output stream '' @ stream_label ost)) None # ns
    \<and> map filter_name ns =
        (if width (codec (st ost)) \<noteq> 0 \<or> height (codec (st ost)) \<noteq> 0 then [''scale''] else []) @
        (if fmts \<noteq> None then [''format''] else []) @
        (if fst (frame_rate ost) \<noteq> 0 then [''fps''] else []) @
        (if window ofile then [''trim''] else [])
    \<and> links g' = links g @ ls
    \<and> follows (map filter_name (filters g')) (filter_ctx out, pad_idx out) ls
          (map filter_name ns @ [''buffersink''])
    \<and> chain_end (filter_ctx out, pad_idx out) ls = (length (filters g), 0)
    \<and> (fmts \<noteq> None \<longleftrightarrow>
          (if pix_fmt (codec (st ost)) \<noteq> AV_PIX_FMT_NONE
           then av_strdup e (pix_fmt_name e (pix_fmt (codec (st ost)))) \<noteq> None
           else enc_list ost pix_fmts \<noteq> None))"
proof -
  let ?sn = "created e ''buffersink'' (snprintf 255 (''output stream '' @ stream_label ost)) None"
  let ?cur = "(filter_ctx out, pad_idx out)"
  obtain r g1 where cr: "avfilter_graph_create_filter e g (avfilter_get_by_name e ''buffersink'')
      (snprintf 255 (''output stream '' @ stream_label ost)) None = (r, g1)" by force
  obtain sink where r: "r = Inr sink"
  proof (cases r)
    case (Inl x)
    from create_filter_Inl [OF cr [unfolded Inl]] have "x < 0" by simp
    moreover from assms(1) cr Inl have "ret = x"
      by (simp add: configure_output_video_filter_def)
    ultimately show ?thesis using assms(2) by simp
  next
    case (Inr x)
    then show ?thesis using that by simp
  qed
  from create_filter_Inr [of e g "''buffersink''" _ None sink g1] cr r
  have sink: "sink = length (filters g)" and g1: "g1 = g\<lparr>filters := filters g @ [?sn]\<rparr>"
    by auto
  from assms(1) cr r obtain c5 where
    o5: "on_success (on_success (on_success (on_success
                 (video_scale e ost (g1, filter_ctx out, pad_idx out))
                 (video_format e ost)) (video_fps e ost)) (insert_trim e ofs ost))
                 (link_sink e sink) = Inr (ret, c5)"
    and flt: "flt = Some sink" and g': "g' = fst c5"
    by (auto simp: configure_output_video_filter_def seq_eq_Inr)
  from on_success_ok [OF o5 assms(2)] obtain r4 c4 where
    o4: "on_success (on_success (on_success
                 (video_scale e ost (g1, filter_ctx out, pad_idx out))
                 (video_format e ost)) (video_fps e ost)) (insert_trim e ofs ost) = Inr (r4, c4)"
    and r4: "0 \<le> r4" and s5: "link_sink e sink c4 = Inr (ret, c5)" by blast
  from on_success_ok [OF o4 r4] obtain r3 c3 where
    o3: "on_success (on_success
                 (video_scale e ost (g1, filter_ctx out, pad_idx out))
                 (video_format e ost)) (video_fps e ost) = Inr (r3, c3)"
    and r3: "0 \<le> r3" and s4: "insert_trim e ofs ost c3 = Inr (r4, c4)" by blast
  from on_success_ok [OF o3 r3] obtain r2 c2 where
    o2: "on_success (video_scale e ost (g1, filter_ctx out, pad_idx out)) (video_format e ost)
           = Inr (r2, c2)"
    and r2: "0 \<le> r2" and s3: "video_fps e ost c2 = Inr (r3, c3)" by blast
  from on_success_ok [OF o2 r2] obtain r1 c1 where
    s1: "video_scale e ost (g1, filter_ctx out, pad_idx out) = Inr (r1, c1)"
    and r1: "0 \<le> r1" and s2: "video_format e ost c1 = Inr (r2, c2)" by blast
  from video_scale_grows [OF s1 r1] obtain n1 where
    gr1: "grows n1 (g1, filter_ctx out, pad_idx out) c1"
    and t1: "map filter_name n1 = (if width (codec (st ost)) \<noteq> 0 \<or> height (codec (st ost)) \<noteq> 0
                              then [''scale''] else [])" by blast
  from video_format_grows [OF s2 r2] assms(4) obtain n2 where
    gr2: "grows n2 c1 c2"
    and t2: "map filter_name n2 = (if fmts \<noteq> None then [''format''] else [])" by auto
  note ch = assms(4)
  from video_fps_grows [OF s3 r3] obtain n3 where
    gr3: "grows n3 c2 c3"
    and t3: "map filter_name n3 = (if fst (frame_rate ost) \<noteq> 0 then [''fps''] else [])" by blast
  from insert_trim_grows [OF s4 r4] assms(5) obtain n4 where
    gr4: "grows n4 c3 c4"
    and t4: "n4 = (if window ofile then [trim_node e ost ofile] else [])" by auto
  have t4': "map filter_name n4 = (if window ofile then [''trim''] else [])"
    using t4 assms(3) by (simp add: trim_node_def trim_stage_def trim_name_def)
  let ?ns = "n1 @ n2 @ n3 @ n4"
  have gr: "grows ?ns (g1, filter_ctx out, pad_idx out) c4"
    using grows_trans [OF gr1 grows_trans [OF gr2 grows_trans [OF gr3 gr4]]] .
  obtain g4 lf4 pad4 where c4: "c4 = (g4, lf4, pad4)" by (cases c4)
  from gr c4 obtain ls0 where
    f4: "filters g4 = filters g1 @ ?ns" and l4: "links g4 = links g1 @ ls0"
    and p4: "follows (map filter_name (filters g4)) ?cur ls0 (map filter_name ?ns)"
    and e4: "(lf4, pad4) = chain_end ?cur ls0"
    by (auto simp: grows_def)
  from link_sink_ok [OF s5 [unfolded c4] assms(2)]
  have ret: "ret = 0" and c5: "c5 = (g4\<lparr>links := links g4 @ [(lf4, pad4, sink, 0)]\<rparr>, lf4, pad4)"
    by auto
  have fg': "filters g' = filters g @ ?sn # ?ns"
    using g' c5 f4 g1 by simp
  have lg': "links g' = links g @ (ls0 @ [(lf4, pad4, sink, 0)])"
    using g' c5 l4 g1 by simp
  have nm: "map filter_name (filters g') = map filter_name (filters g4)"
    using g' c5 by simp
  have sk: "sink < length (map filter_name (filters g4))"
    "map filter_name (filters g4) ! sink = ''buffersink''"
    using f4 g1 sink by (simp_all add: nth_append created_def)
  note fs = follows_to_sink [OF p4 e4 [symmetric] sk]
  have co: "fmts \<noteq> None \<longleftrightarrow>
          (if pix_fmt (codec (st ost)) \<noteq> AV_PIX_FMT_NONE
           then av_strdup e (pix_fmt_name e (pix_fmt (codec (st ost)))) \<noteq> None
           else enc_list ost pix_fmts \<noteq> None)"
    using choose_format_constrained [OF ch [unfolded choose_pix_fmts_def]] .
  have ns: "ns = ?ns" using assms(6) fg' by simp
  have ls: "ls = ls0 @ [(lf4, pad4, sink, 0)]" using assms(7) lg' by simp
  show ?thesis
    unfolding ns ls
    using ret flt sink fg' lg' fs co t1 t2 t3 t4' nm
    by simp
qed

lemmas engine_defs = avfilter_graph_create_filter_def avfilter_get_by_name_def
  avfilter_graph_alloc_filter_def avfilter_init_str_def avfilter_link_def av_opt_set_double_def

lemmas format_defs = fmt_d_def fmt_X_def fmt_x_def dec_nat.simps hex_nat.simps digit_char_def
  upper_char_def to_unsigned_def snprintf_def stream_label_def

subsection \<open>An engine that grants every request\<close>

lemma obliging_env0: "obliging env0"
  by (simp add: obliging_def env0_def)

lemma on_success_0: "on_success (Inr (0, c)) k = k c"
  by (simp add: on_success_def)

lemma create_filter_obliging:
  assumes "obliging e"
  shows "avfilter_graph_create_filter e g (avfilter_get_by_name e ftype) nm args
     = (Inr (length (filters g)), g\<lparr>filters := filters g @ [created e ftype nm args]\<rparr>)"
proof -
  have "\<not> init_str_rc e g' c a < 0" for g' c a
    using assms by (simp add: obliging_def not_less)
  then show ?thesis
    using assms
    by (simp add: obliging_def avfilter_graph_create_filter_def avfilter_get_by_name_def
        avfilter_graph_alloc_filter_def avfilter_init_str_def Let_def created_def
        upd_new_node nth_new_node)
qed

lemma link_obliging:
  assumes "obliging e"
  shows "\<exists>r. 0 \<le> r \<and> avfilter_link e g src sp dst dp = (r, g\<lparr>links := links g @ [(src, sp, dst, dp)]\<rparr>)"
proof -
  have "\<not> link_rc e g (src, sp, dst, dp) < 0"
    using assms by (simp add: obliging_def not_less)
  then show ?thesis
    using assms by (simp add: avfilter_link_def Let_def obliging_def)
qed

lemma append_filter_obliging:
  assumes "obliging e"
  shows "\<exists>c'. append_filter e ftype nm args c = (0, c') \<and> valid_cursor c'"
proof -
  obtain g lf pad where c: "c = (g, lf, pad)" by (cases c)
  let ?g1 = "g\<lparr>filters := filters g @ [created e ftype nm args]\<rparr>"
  from link_obliging [OF assms, of ?g1 lf pad "length (filters g)" 0]
  obtain r where "0 \<le> r"
    "avfilter_link e ?g1 lf pad (length (filters g)) 0
       = (r, ?g1\<lparr>links := links ?g1 @ [(lf, pad, length (filters g), 0)]\<rparr>)" by blast
  then show ?thesis
    using c create_filter_obliging [OF assms, of g ftype nm args]
    by (simp add: append_filter_def valid_cursor_def)
qed

lemma video_scale_obliging:
  assumes "obliging e" "valid_cursor c"
  shows "\<exists>c'. video_scale e ost c = Inr (0, c') \<and> valid_cursor c'"
proof (cases "width (codec (st ost)) \<noteq> 0 \<or> height (codec (st ost)) \<noteq> 0")
  case True
  then show ?thesis
    using append_filter_obliging [OF assms(1), of "''scale''" _ _ c]
    by (simp add: video_scale_def Let_def)
next
  case False
  then show ?thesis using assms(2) by (intro exI [of _ c]) (simp add: video_scale_def Let_def)
qed

lemma video_fps_obliging:
  assumes "obliging e" "valid_cursor c"
  shows "\<exists>c'. video_fps e ost c = Inr (0, c') \<and> valid_cursor c'"
proof (cases "fst (frame_rate ost) \<noteq> 0")
  case True
  then show ?thesis
    using append_filter_obliging [OF assms(1), of "''fps''" _ _ c]
    by (simp add: video_fps_def)
next
  case False
  then show ?thesis using assms(2) by (intro exI [of _ c]) (simp add: video_fps_def)
qed

lemma video_format_obliging:
  assumes "obliging e" "valid_cursor c" "choose_pix_fmts e ost = Inr fmts"
  shows "\<exists>c'. video_format e ost c = Inr (0, c') \<and> valid_cursor c'"
proof (cases fmts)
  case None
  then show ?thesis using assms(2,3) by (intro exI [of _ c]) (simp add: video_format_def)
next
  case (Some f)
  then show ?thesis
    using assms(3) append_filter_obliging [OF assms(1), of "''format''" _ _ c]
    by (simp add: video_format_def)
qed

lemma insert_trim_obliging:
  assumes "obliging e" "valid_cursor c" "load ofs (ost_file_index ost) = Inr ofile"
  shows "\<exists>c'. insert_trim e ofs ost c = Inr (0, c') \<and> valid_cursor c'"
proof -
  obtain g lf pad where c: "c = (g, lf, pad)" by (cases c)
  with assms(2) have n: "node g lf = Inr (filters g ! lf)"
    by (simp add: valid_cursor_def node_def deref_def)
  show ?thesis
  proof (cases "window ofile")
    case False
    with insert_trim_no_window [OF assms(3) n, of e pad] assms(2) c show ?thesis by simp
  next
    case True
    from insert_trim_window [OF assms(3) n True, of e pad]
    obtain ret g' lf' pad' where r: "insert_trim e ofs ost (g, lf, pad) = Inr (ret, g', lf', pad')"
      and ok: "0 \<le> ret \<longrightarrow> ret = 0 \<and> lf' = length (filters g) \<and> pad' = 0
          \<and> g' = g\<lparr>filters := filters g @ [trim_node e ost ofile],
                   links := links g @ [(lf, pad, length (filters g), 0)]\<rparr>"
      by blast
    have "0 \<le> ret"
    proof (rule ccontr)
      assume "\<not> 0 \<le> ret"
      then have neg: "ret < 0" by simp
      have nn: "\<not> opt_set_double_rc e g' c k v < 0" "\<not> init_str_rc e g' c a < 0"
        "\<not> link_rc e g' (l1, l2, l3, l4) < 0" for g' c k v a l1 l2 l3 l4
        using assms(1) by (simp_all add: obliging_def not_less)
      have "\<exists>cur. insert_trim e ofs ost (g, lf, pad) = Inr (0, cur)"
        using assms(1,3) n True nn
        by (simp add: insert_trim_def obliging_def window_def avfilter_get_by_name_def
            avfilter_graph_alloc_filter_def set_trim_options_def av_opt_set_double_def
            avfilter_init_str_def avfilter_link_def Let_def)
      with r neg show False by simp
    qed
    with ok r c show ?thesis by (simp add: valid_cursor_def)
  qed
qed

lemma link_sink_obliging:
  assumes "obliging e"
  shows "\<exists>g'. link_sink e sink (g, lf, pad) = Inr (0, g', lf, pad)"
  using link_obliging [OF assms, of g lf pad sink 0]
  by (auto simp: link_sink_def)

lemma configure_output_video_filter_obliging:
  assumes "obliging e" "filter_ctx out < length (filters g)"
    and "choose_pix_fmts e ost = Inr fmts" "load ofs (ost_file_index ost) = Inr ofile"
  shows "\<exists>g'. configure_output_video_filter e ofs ost out g = Inr (0, Some (length (filters g)), g')"
proof -
  let ?g1 = "g\<lparr>filters := filters g @
      [created e ''buffersink'' (snprintf 255 (''output stream '' @ stream_label ost)) None]\<rparr>"
  have v0: "valid_cursor (?g1, filter_ctx out, pad_idx out)"
    using assms(2) by (simp add: valid_cursor_def)
  from video_scale_obliging [OF assms(1) v0] obtain c1 where
    s1: "video_scale e ost (?g1, filter_ctx out, pad_idx out) = Inr (0, c1)" and v1: "valid_cursor c1"
    by blast
  from video_format_obliging [OF assms(1) v1 assms(3)] obtain c2 where
    s2: "video_format e ost c1 = Inr (0, c2)" and v2: "valid_cursor c2" by blast
  from video_fps_obliging [OF assms(1) v2] obtain c3 where
    s3: "video_fps e ost c2 = Inr (0, c3)" and v3: "valid_cursor c3" by blast
  from insert_trim_obliging [OF assms(1) v3 assms(4)] obtain c4 where
    s4: "insert_trim e ofs ost c3 = Inr (0, c4)" by blast
  obtain g4 lf4 pad4 where c4: "c4 = (g4, lf4, pad4)" by (cases c4)
  from link_sink_obliging [OF assms(1), of "length (filters g)" g4 lf4 pad4] obtain g5 where
    s5: "link_sink e (length (filters g)) c4 = Inr (0, g5, lf4, pad4)" using c4 by blast
  show ?thesis
    unfolding configure_output_video_filter_def create_filter_obliging [OF assms(1)]
    using s1 s2 s3 s4 s5 by (simp add: on_success_0)
qed

theorem video_output_chain_witness:
  "\<exists>g'. configure_output_video_filter env0 [file_unbounded] ost_scaled out0 graph1
          = Inr (0, Some 1, g')
      \<and> map filter_name (filters g') = [''overlay'', ''buffersink'', ''scale'', ''format'']
      \<and> follows (map filter_name (filters g')) (0, 0) (links g')
           [''scale'', ''format'', ''buffersink'']"
proof -
  have un: "pix_fmt (codec (st ost_scaled)) = AV_PIX_FMT_NONE"
    and li: "enc_list ost_scaled pix_fmts = Some [0, 2, - 1]"
    by (simp_all add: enc_list_def ost_scaled_def ost0_def stream0_def codec0_def encoder0_def)
  have "\<exists>r. choose_format env0 AV_PIX_FMT_NONE (pix_fmt_name env0) AV_PIX_FMT_NONE (Some [0, 2, - 1])
          = Inr r"
    using choose_format_returns_named [of AV_PIX_FMT_NONE "[0, 2, - 1]" env0 "pix_fmt_name env0"]
    by (simp add: supported_values_def AV_PIX_FMT_NONE_def env0_def)
  then obtain fmts where ch: "choose_pix_fmts env0 ost_scaled = Inr fmts"
    unfolding choose_pix_fmts_def un li by blast
  have lo: "load [file_unbounded] (ost_file_index ost_scaled) = Inr file_unbounded"
    by (simp add: load_def ost_scaled_def ost0_def)
  have "filter_ctx out0 < length (filters graph1)"
    by (simp add: out0_def graph1_def)
  from configure_output_video_filter_obliging [OF obliging_env0 this ch lo]
  have "\<exists>g'. configure_output_video_filter env0 [file_unbounded] ost_scaled out0 graph1
          = Inr (0, Some 1, g')"
    by (simp add: graph1_def)
  then obtain g' where r: "configure_output_video_filter env0 [file_unbounded] ost_scaled out0 graph1
          = Inr (0, Some 1, g')" by (elim exE) (rule that)
  have v: "codec_type (codec (st ost_scaled)) = AVMEDIA_TYPE_VIDEO"
    by (simp add: ost_scaled_def ost0_def codec0_def)
  define ns where "ns = drop (Suc (length (filters graph1))) (filters g')"
  define ls where "ls = drop (length (links graph1)) (links g')"
  note t = video_output_chain [OF r order_refl v ch lo ns_def ls_def]
  note c2 = t [THEN conjunct2, THEN conjunct2]
  note f = c2 [THEN conjunct1]
  note n = c2 [THEN conjunct2, THEN conjunct1]
  note k = c2 [THEN conjunct2, THEN conjunct2, THEN conjunct1]
  note p = c2 [THEN conjunct2, THEN conjunct2, THEN conjunct2, THEN conjunct1]
  note i = c2 [THEN conjunct2, THEN conjunct2, THEN conjunct2, THEN conjunct2, THEN conjunct2]
  have co: "fmts \<noteq> None" using i li un by simp
  have wh: "width (codec (st ost_scaled)) \<noteq> 0" "fst (frame_rate ost_scaled) = 0"
    "\<not> window file_unbounded"
    by (simp_all add: ost_scaled_def ost0_def window_def file_unbounded_def)
  have n': "map filter_name ns = [''scale'', ''format'']"
    unfolding n using co wh by simp
  have A: "map filter_name (filters g') = [''overlay'', ''buffersink'', ''scale'', ''format'']"
    using f n' by (simp add: graph1_def created_def)
  have B: "follows (map filter_name (filters g')) (0, 0) (links g')
           [''scale'', ''format'', ''buffersink'']"
    using p k n' by (simp add: graph1_def out0_def)
  show ?thesis
    by (rule exI [of _ g'], intro conjI) (rule r, rule A, rule B)
qed

subsection \<open>A missing node type\<close>

text \<open>
  The claim as first stated fails: a width is set, the engine has no \<open>scale\<close> node type,
  and the call returns the error with the sink as the only new node.
\<close>

theorem video_output_chain_counterexample:
  "width (codec (st ost_scaled)) \<noteq> 0
   \<and> configure_output_video_filter (env_without ''scale'') [file_unbounded] ost_scaled out0 graph1
       = Inr (AVERROR_ENOMEM, Some 1,
              graph1\<lparr>filters := filters graph1 @
                [created (env_without ''scale'') ''buffersink'' ''output stream 0:0'' None]\<rparr>)"
  by (simp add: configure_output_video_filter_def video_scale_def on_success_def
      append_filter_def engine_defs format_defs created_def env_without_def
      ost_scaled_def ost0_def stream0_def codec0_def out0_def graph1_def env0_def Let_def
      AVERROR_ENOMEM_def)

subsection \<open>Configuring a simple graph\<close>

lemma state_simple_init: "init_simple_filtergraph env0 0 0 state0 = Inr (0, state_simple)"
proof -
  have a: "alloc_ok env0" "0 < length (input_streams state0)" "0 < length (output_streams state0)"
    by (simp_all add: env0_def state0_def)
  show ?thesis
    unfolding init_simple_filtergraph_result [OF a]
    by (simp add: state0_def state_simple_def ist0_def)
qed

lemma simple_mismatch:
  assumes "deref (fg_heap s) (Some fg) = Inr G" and "graph_desc G = None"
    and "load (outputs G) 0 = Inr ofp" and "deref (ofilter_heap s) ofp = Inr ofl"
    and "deref (output_streams s) (of_ost ofl) = Inr ost"
    and "graph_alloc_ok e"
    and "parse2 e (graph_simple e ost) (avfilter ost) = (ret, g2, ins, outs)"
    and "0 \<le> ret" and "length ins \<noteq> 1 \<or> length outs \<noteq> 1"
  shows "configure_filtergraph e fg s = Inr (AVERROR_EINVAL, upd_fg fg (\<lambda>x. x\<lparr>graph := Some g2\<rparr>) s)"
  using assms
  by (simp add: configure_filtergraph_def Let_def avfilter_graph_alloc_def graph_simple_def)

lemma simple_mismatch_sample:
  "configure_filtergraph env0 0 state_simple =
     Inr (AVERROR_EINVAL,
          upd_fg 0 (\<lambda>x. x\<lparr>graph := Some (graph_simple env0 (ost0\<lparr>ost_filter := Some 0\<rparr>))\<rparr>)
            state_simple)"
proof -
  have 1: "deref (fg_heap state_simple) (Some 0) = Inr (hd (fg_heap state_simple))"
    by (simp add: deref_def state_simple_def)
  have 2: "graph_desc (hd (fg_heap state_simple)) = None" by (simp add: state_simple_def)
  have 3: "load (outputs (hd (fg_heap state_simple))) 0 = Inr (Some 0)"
    by (simp add: load_def state_simple_def)
  have 4: "deref (ofilter_heap state_simple) (Some 0) = Inr (hd (ofilter_heap state_simple))"
    by (simp add: deref_def state_simple_def)
  have 5: "deref (output_streams state_simple) (of_ost (hd (ofilter_heap state_simple)))
             = Inr (ost0\<lparr>ost_filter := Some 0\<rparr>)"
    by (simp add: deref_def state_simple_def)
  have 6: "graph_alloc_ok env0" by (simp add: env0_def)
  have 7: "parse2 env0 g d = (0, g, [], [])" for g d by (simp add: env0_def)
  show ?thesis
    by (rule simple_mismatch [OF 1 2 3 4 5 6 7]) simp_all
qed

text \<open>
  Claim C2 (as amended). For a simple graph whose description the parser accepts with other
  than exactly one input endpoint and one output endpoint, \<open>configure_filtergraph\<close>
  returns \<^verbatim>\<open>AVERROR(EINVAL)\<close> to its caller; the process is not ended. The state it leaves
  is the one it found with the executable graph replaced by what the parser made: no node
  was added to it, and the input and output filters of the program, which a configurer
  would name and bind to a node, are untouched. The graph structure is taken to be
  allocated (otherwise \<^verbatim>\<open>AVERROR(ENOMEM)\<close> is returned before the parse).
\<close>

theorem simple_graph_mismatch_returns_einval:
  assumes "deref (fg_heap s) (Some fg) = Inr G" and "graph_desc G = None"
    and "load (outputs G) 0 = Inr ofp" and "deref (ofilter_heap s) ofp = Inr ofl"
    and "deref (output_streams s) (of_ost ofl) = Inr ost"
    and "graph_alloc_ok e"
    and "parse2 e (graph_simple e ost) (avfilter ost) = (ret, g2, ins, outs)"
    and "0 \<le> ret" and "length ins \<noteq> 1 \<or> length outs \<noteq> 1"
  shows "\<exists>s'. configure_filtergraph e fg s = Inr (AVERROR_EINVAL, s')
           \<and> fg_graph s' fg = Inr g2
           \<and> s' = upd_fg fg (\<lambda>x. x\<lparr>graph := Some g2\<rparr>) s
           \<and> input_streams s' = input_streams s \<and> output_streams s' = output_streams s
           \<and> ifilter_heap s' = ifilter_heap s \<and> ofilter_heap s' = ofilter_heap s
           \<and> map inputs (fg_heap s') = map inputs (fg_heap s)
           \<and> map outputs (fg_heap s') = map outputs (fg_heap s)"
proof -
  have v: "fg < length (fg_heap s)"
    using assms(1) by (simp add: deref_def split: if_splits)
  have "fg_graph (upd_fg fg (\<lambda>x. x\<lparr>graph := Some g2\<rparr>) s) fg = Inr g2"
    using v by (simp add: fg_graph_def upd_fg_def deref_def)
  moreover have "map inputs (fg_heap (upd_fg fg (\<lambda>x. x\<lparr>graph := Some g2\<rparr>) s)) = map inputs (fg_heap s)"
    "map outputs (fg_heap (upd_fg fg (\<lambda>x. x\<lparr>graph := Some g2\<rparr>) s)) = map outputs (fg_heap s)"
    using v by (simp_all add: upd_fg_def map_update list_update_same_conv)
  ultimately show ?thesis
    using simple_mismatch [OF assms] by (simp add: upd_fg_def)
qed

theorem simple_graph_mismatch_returns_einval_witness:
  "\<exists>s'. configure_filtergraph env0 0 state_simple = Inr (AVERROR_EINVAL, s')
      \<and> fg_graph s' 0 = Inr (graph_simple env0 (ost0\<lparr>ost_filter := Some 0\<rparr>))
      \<and> filters (graph_simple env0 (ost0\<lparr>ost_filter := Some 0\<rparr>)) = []
      \<and> ifilter_heap s' = ifilter_heap state_simple \<and> ofilter_heap s' = ofilter_heap state_simple"
proof -
  have 1: "deref (fg_heap state_simple) (Some 0) = Inr (hd (fg_heap state_simple))"
    by (simp add: deref_def state_simple_def)
  have 2: "graph_desc (hd (fg_heap state_simple)) = None" by (simp add: state_simple_def)
  have 3: "load (outputs (hd (fg_heap state_simple))) 0 = Inr (Some 0)"
    by (simp add: load_def state_simple_def)
  have 4: "deref (ofilter_heap state_simple) (Some 0) = Inr (hd (ofilter_heap state_simple))"
    by (simp add: deref_def state_simple_def)
  have 5: "deref (output_streams state_simple) (of_ost (hd (ofilter_heap state_simple)))
             = Inr (ost0\<lparr>ost_filter := Some 0\<rparr>)"
    by (simp add: deref_def state_simple_def)
  have 6: "graph_alloc_ok env0" by (simp add: env0_def)
  have 7: "parse2 env0 (graph_simple env0 (ost0\<lparr>ost_filter := Some 0\<rparr>))
             (avfilter (ost0\<lparr>ost_filter := Some 0\<rparr>))
           = (0, graph_simple env0 (ost0\<lparr>ost_filter := Some 0\<rparr>), [], [])"
    by (simp add: env0_def)
  have 8: "(0::int) \<le> 0" by simp
  have 9: "length ([]::AVFilterInOut list) \<noteq> 1 \<or> length ([]::AVFilterInOut list) \<noteq> 1" by simp
  have f: "filters (graph_simple env0 (ost0\<lparr>ost_filter := Some 0\<rparr>)) = []"
    by (simp add: graph_simple_def simple_graph_options_def Let_def)
  from simple_graph_mismatch_returns_einval [OF 1 2 3 4 5 6 7 8 9] f
  show ?thesis by auto
qed

text \<open>
  The claim as first stated fails: the parser yields no endpoint for the simple graph of
  \<open>state_simple\<close>, and the call returns the code \<^verbatim>\<open>AVERROR(EINVAL)\<close> to its caller instead of
  ending the process.
\<close>

theorem simple_graph_mismatch_counterexample:
  "graph_desc (hd (fg_heap state_simple)) = None
   \<and> configure_filtergraph env0 0 state_simple =
       Inr (AVERROR_EINVAL,
            upd_fg 0 (\<lambda>x. x\<lparr>graph := Some (graph_simple env0 (ost0\<lparr>ost_filter := Some 0\<rparr>))\<rparr>)
              state_simple)
   \<and> configure_filtergraph env0 0 state_simple \<noteq> Inl (Exit 1)"
  using simple_mismatch_sample by (simp add: state_simple_def)

lemma output_result_unused:
  assumes "deref (fg_heap s) (Some fg) = Inr G" and "graph_desc G = None"
    and "load (outputs G) 0 = Inr ofp" and "deref (ofilter_heap s) ofp = Inr ofl"
    and "deref (output_streams s) (of_ost ofl) = Inr ost"
    and "graph_alloc_ok e"
    and "parse2 e (graph_simple e ost) (avfilter ost) = (ret, g2, [inp], [out])" and "0 \<le> ret"
    and "configure_input_filters e fg [inp] 0 (upd_fg fg (\<lambda>x. x\<lparr>graph := Some g2\<rparr>) s) = Inr (ri, s3)"
    and "0 \<le> ri"
    and "deref (fg_heap s3) (Some fg) = Inr G3" and "load (outputs G3) 0 = Inr ofp3"
    and "configure_output_filter e fg ofp3 out s3 = Inr (ro, s4)"
    and "fg_graph s4 fg = Inr g4"
  shows "configure_filtergraph e fg s =
           Inr (if graph_config_rc e g4 < 0 then graph_config_rc e g4 else 0, s4)"
  using assms
  by (simp add: configure_filtergraph_def Let_def avfilter_graph_alloc_def graph_simple_def)

text \<open>
  Claim C1 (refuted by the code). In the loop over the output endpoints the return value
  of \<open>configure_output_filter\<close> is not used. For a simple graph with one input and one
  output endpoint whose input is configured and whose output configuration fails with the
  code \<open>ro < 0\<close>, \<open>configure_filtergraph\<close> goes on to \<^verbatim>\<open>avfilter_graph_config\<close> and
  returns what that yields, 0 when it succeeds, in the state the failed configuration
  left; \<open>ro\<close> is not returned.
\<close>

theorem output_failure_not_returned:
  assumes "deref (fg_heap s) (Some fg) = Inr G" and "graph_desc G = None"
    and "load (outputs G) 0 = Inr ofp" and "deref (ofilter_heap s) ofp = Inr ofl"
    and "deref (output_streams s) (of_ost ofl) = Inr ost"
    and "graph_alloc_ok e"
    and "parse2 e (graph_simple e ost) (avfilter ost) = (ret, g2, [inp], [out])" and "0 \<le> ret"
    and "configure_input_filters e fg [inp] 0 (upd_fg fg (\<lambda>x. x\<lparr>graph := Some g2\<rparr>) s) = Inr (ri, s3)"
    and "0 \<le> ri"
    and "deref (fg_heap s3) (Some fg) = Inr G3" and "load (outputs G3) 0 = Inr ofp3"
    and "configure_output_filter e fg ofp3 out s3 = Inr (ro, s4)" and "ro < 0"
    and "fg_graph s4 fg = Inr g4"
  shows "configure_filtergraph e fg s =
           Inr (if graph_config_rc e g4 < 0 then graph_config_rc e g4 else 0, s4)
         \<and> (0 \<le> graph_config_rc e g4 \<longrightarrow>
              configure_filtergraph e fg s = Inr (0, s4)
              \<and> configure_filtergraph e fg s \<noteq> Inr (ro, s4))"
  using output_result_unused [OF assms(1-13) assms(15)] assms(14) by auto

theorem output_failure_not_returned_witness:
  "\<exists>s3 s4.
      configure_input_filters env_no_scale 0 [inp0] 0
        (upd_fg 0 (\<lambda>x. x\<lparr>graph := Some (parsed_null
            (graph_simple env_no_scale (ost_scaled\<lparr>ost_filter := Some 0\<rparr>)))\<rparr>) state_scaled)
        = Inr (0, s3)
      \<and> configure_output_filter env_no_scale 0 (Some 0) out0 s3 = Inr (AVERROR_ENOMEM, s4)
      \<and> configure_filtergraph env_no_scale 0 state_scaled = Inr (0, s4)"
proof -
  let ?ost = "ost_scaled\<lparr>ost_filter := Some 0\<rparr>"
  let ?g2 = "parsed_null (graph_simple env_no_scale ?ost)"
  let ?s1 = "upd_fg 0 (\<lambda>x. x\<lparr>graph := Some ?g2\<rparr>) state_scaled"
  have 1: "deref (fg_heap state_scaled) (Some 0) = Inr (hd (fg_heap state_scaled))"
    by (simp add: deref_def state_scaled_def state_simple_def)
  have 2: "graph_desc (hd (fg_heap state_scaled)) = None"
    by (simp add: state_scaled_def state_simple_def)
  have 3: "load (outputs (hd (fg_heap state_scaled))) 0 = Inr (Some 0)"
    by (simp add: load_def state_scaled_def state_simple_def)
  have 4: "deref (ofilter_heap state_scaled) (Some 0) = Inr (hd (ofilter_heap state_scaled))"
    by (simp add: deref_def state_scaled_def state_simple_def)
  have 5: "deref (output_streams state_scaled) (of_ost (hd (ofilter_heap state_scaled))) = Inr ?ost"
    by (simp add: deref_def state_scaled_def state_simple_def)
  have 6: "graph_alloc_ok env_no_scale" by (simp add: env_no_scale_def env0_def)
  have 7: "parse2 env_no_scale (graph_simple env_no_scale ?ost) (avfilter ?ost)
             = (0, ?g2, [inp0], [out0])"
    by (simp add: env_no_scale_def)
  have 8: "(0::int) \<le> 0" by simp
  have "\<exists>s3 G3 s4 g4.
      configure_input_filters env_no_scale 0 [inp0] 0 ?s1 = Inr (0, s3)
      \<and> deref (fg_heap s3) (Some 0) = Inr G3 \<and> load (outputs G3) 0 = Inr (Some 0)
      \<and> configure_output_filter env_no_scale 0 (Some 0) out0 s3 = Inr (AVERROR_ENOMEM, s4)
      \<and> fg_graph s4 0 = Inr g4"
    by (simp add: state_scaled_def state_simple_def state0_def graph_simple_def
        deref_def load_def Let_def env_no_scale_def env0_def
        upd_fg_def upd_ifilter_def upd_ofilter_def upd_ost_def fg_graph_def node_def
        configure_input_filter_def configure_output_filter_def describe_filter_link_def
        avfilter_pad_get_type_def avfilter_pad_get_name_def c_str_def
        configure_input_video_filter_def configure_output_video_filter_def
        on_success_def link_source_def video_scale_def append_filter_def
        engine_defs parsed_null_def inp0_def out0_def ist0_def stream0_def codec0_def
        ost_scaled_def ost0_def simple_graph_options_def av_strdup_def AVERROR_ENOMEM_def)
  then obtain s3 G3 s4 g4 where
    i: "configure_input_filters env_no_scale 0 [inp0] 0 ?s1 = Inr (0, s3)"
    and d: "deref (fg_heap s3) (Some 0) = Inr G3" and l: "load (outputs G3) 0 = Inr (Some 0)"
    and o: "configure_output_filter env_no_scale 0 (Some 0) out0 s3 = Inr (AVERROR_ENOMEM, s4)"
    and g: "fg_graph s4 0 = Inr g4"
    by (elim exE conjE) (rule that)
  have n: "AVERROR_ENOMEM < 0" by (simp add: AVERROR_ENOMEM_def)
  have c: "0 \<le> graph_config_rc env_no_scale g4" by (simp add: env_no_scale_def env0_def)
  from output_failure_not_returned [OF 1 2 3 4 5 6 7 8 i 8 d l o n g, THEN conjunct2,
      rule_format, OF c]
  have "configure_filtergraph env_no_scale 0 state_scaled = Inr (0, s4)" by (rule conjunct1)
  with i o show ?thesis
    by (intro exI [of _ s3] exI [of _ s4] conjI)
qed

end
